theory Spec2Isabelle
  imports Complex_Main "HOL-Library.Multiset"
begin

section \<open>JavaScript values and errors\<close>

text \<open>
  The values that travel through the journal and account controllers: request bodies are
  parsed JSON, result rows come from the SQL driver. Numbers are IEEE doubles in the
  program; the model idealises them as exact reals, with the not-a-number value kept
  apart because it is falsy. A date object carries its time value in milliseconds, or
  nothing when the date is invalid.
\<close>

datatype jsval =
    JUndefined
  | JNull
  | JBool bool
  | JNum real
  | JNaN
  | JStr string
  | JDate "int option"

text \<open>What \<^verbatim>\<open>if (v)\<close>, \<^verbatim>\<open>!v\<close> and \<^verbatim>\<open>v ? a : b\<close> test.\<close>

fun truthy :: "jsval \<Rightarrow> bool" where
  "truthy JUndefined = False"
| "truthy JNull = False"
| "truthy (JBool b) = b"
| "truthy (JNum x) = (x \<noteq> 0)"
| "truthy JNaN = False"
| "truthy (JStr s) = (s \<noteq> [])"
| "truthy (JDate t) = True"

text \<open>
  The stable machine-readable codes of \<^verbatim>\<open>BadRequest\<close>, without their common prefix
  \<^verbatim>\<open>POSTING_JOURNAL.ERRORS.\<close>, and the errors a request can end with. \<open>TypeError\<close> is
  the language's own error (destructuring an empty result); \<open>StoreFailure\<close> is a rejected
  store round trip, with the store's own code.
\<close>

datatype code =
    TRANSACTION_ALREADY_POSTED
  | TRANSACTION_MUST_CONTAIN_ROWS
  | CLOSED_FISCAL_YEAR
  | EDIT_INVALID_ACCOUNT
  | EDIT_INVALID_ENTITY
  | EDIT_INVALID_REFERENCE
  | MISSING_EXCHANGE_RATE

datatype error =
    NotFound
  | BadRequest code
  | TypeError
  | StoreFailure nat

section \<open>Account balances: \<^verbatim>\<open>server/controllers/finance/accounts/extra.js\<close>\<close>

subsection \<open>Tables\<close>

text \<open>
  The four tables the balance queries read. Temporal values are seconds; \<open>DATE\<close> is the
  SQL function that drops the time of day. A period's dates are nullable: period 0,
  which carries the opening balances of its fiscal year, has none. Amounts are reals.
\<close>

record fiscal_year_row =
  fy_id :: int
  fy_start_date :: int
  fy_end_date :: int

record period_row =
  p_id :: int
  p_fiscal_year_id :: int
  p_number :: int
  p_start_date :: "int option"
  p_end_date :: "int option"

record period_total_row =
  pt_account_id :: int
  pt_period_id :: int
  pt_debit :: real
  pt_credit :: real

record general_ledger_row =
  gl_account_id :: int
  gl_period_id :: int
  gl_trans_date :: int
  gl_debit :: real
  gl_credit :: real
  gl_debit_equiv :: real
  gl_credit_equiv :: real

record database =
  tbl_fiscal_year :: "fiscal_year_row list"
  tbl_period :: "period_row list"
  tbl_period_total :: "period_total_row list"
  tbl_general_ledger :: "general_ledger_row list"

text \<open>The row an aggregate query returns, and the object the controller answers with.\<close>

record 'a totals =
  balance :: 'a
  credit :: 'a
  debit :: 'a

subsection \<open>The SQL the queries use\<close>

definition DATE :: "int \<Rightarrow> int" where
  "DATE t = (t div 86400) * 86400"

text \<open>
  A comparison with a nullable column: a \<^verbatim>\<open>NULL\<close> operand makes the comparison unknown,
  and a \<^verbatim>\<open>WHERE\<close> clause keeps a row only when its condition is true. The queries below
  combine comparisons with \<^verbatim>\<open>AND\<close> and \<^verbatim>\<open>OR\<close> only, so unknown can be read as false.
\<close>

definition sql_le :: "int option \<Rightarrow> int \<Rightarrow> bool" where
  "sql_le c v = (case c of None \<Rightarrow> False | Some x \<Rightarrow> x \<le> v)"

definition sql_ge :: "int option \<Rightarrow> int \<Rightarrow> bool" where
  "sql_ge c v = (case c of None \<Rightarrow> False | Some x \<Rightarrow> x \<ge> v)"

definition sql_lt :: "int option \<Rightarrow> int \<Rightarrow> bool" where
  "sql_lt c v = (case c of None \<Rightarrow> False | Some x \<Rightarrow> x < v)"

text \<open>\<^verbatim>\<open>SUM\<close> over no rows is \<^verbatim>\<open>NULL\<close>; \<^verbatim>\<open>IFNULL\<close> replaces it.\<close>

definition SUM_of :: "('a \<Rightarrow> real) \<Rightarrow> 'a list \<Rightarrow> real option" where
  "SUM_of f rows = (if rows = [] then None else Some (sum_list (map f rows)))"

definition IFNULL :: "'a option \<Rightarrow> 'a \<Rightarrow> 'a" where
  "IFNULL v d = (case v of None \<Rightarrow> d | Some x \<Rightarrow> x)"

text \<open>\<^verbatim>\<open>period_total JOIN period ON period.id = period_total.period_id\<close>\<close>

definition period_total_JOIN_period ::
  "database \<Rightarrow> (period_total_row \<times> period_row) list" where
  "period_total_JOIN_period db =
     concat (map (\<lambda>pt. map (\<lambda>p. (pt, p))
                         (filter (\<lambda>p. p_id p = pt_period_id pt) (tbl_period db)))
                 (tbl_period_total db))"

text \<open>
  The date operator is spliced into the query text as a string; this is how the engine
  reads the two operators the controller can splice.
\<close>

definition sql_compare :: "string \<Rightarrow> int \<Rightarrow> int \<Rightarrow> bool" where
  "sql_compare opr a b =
     (if opr = ''<='' then a \<le> b else if opr = ''<'' then a < b else False)"

text \<open>
  Modelled from the spec: \<^verbatim>\<open>db.one\<close> of \<^verbatim>\<open>lib/db\<close>, which is not among the sources. It
  fails with \<open>NotFound\<close> when the query returns no row and otherwise answers with a row
  of the result. What it does with several rows is not fixed by the spec; the model takes
  the first, and no theorem below depends on that choice.
\<close>

definition db_one :: "'a list \<Rightarrow> error + 'a" where
  "db_one rows = (case rows of [] \<Rightarrow> Inl NotFound | r # _ \<Rightarrow> Inr r)"

subsection \<open>The controller\<close>

definition getFiscalYearForDate :: "database \<Rightarrow> int \<Rightarrow> error + int" where
  "getFiscalYearForDate db date =
     (case db_one (filter (\<lambda>fy. fy_start_date fy \<le> DATE date \<and> fy_end_date fy \<ge> DATE date)
                          (tbl_fiscal_year db)) of
        Inl e \<Rightarrow> Inl e
      | Inr data \<Rightarrow> Inr (fy_id data))"

definition getPeriodForDate :: "database \<Rightarrow> int \<Rightarrow> error + int" where
  "getPeriodForDate db date =
     (case db_one (filter (\<lambda>p. sql_le (p_start_date p) (DATE date)
                              \<and> sql_ge (p_end_date p) (DATE date))
                          (tbl_period db)) of
        Inl e \<Rightarrow> Inl e
      | Inr data \<Rightarrow> Inr (p_id data))"

definition periodCondition :: "period_row \<Rightarrow> int \<Rightarrow> bool" where
  "periodCondition p date =
     (p_number p = 0 \<or> sql_lt (map_option DATE (p_end_date p)) (DATE date))"

text \<open>
  An aggregate query without grouping returns exactly one row, so \<^verbatim>\<open>db.one\<close> cannot
  fail on the two sums and they are modelled as total.
\<close>

definition getPeriodAccountBalanceUntilDate ::
  "database \<Rightarrow> int \<Rightarrow> int \<Rightarrow> int \<Rightarrow> real totals" where
  "getPeriodAccountBalanceUntilDate db accountId date fiscalYearId =
     (let rows = filter (\<lambda>(pt, p). pt_account_id pt = accountId
                                   \<and> periodCondition p date
                                   \<and> p_fiscal_year_id p = fiscalYearId)
                        (period_total_JOIN_period db)
      in \<lparr> balance = IFNULL (SUM_of (\<lambda>(pt, p). pt_debit pt - pt_credit pt) rows) 0,
           credit = IFNULL (SUM_of (\<lambda>(pt, p). pt_credit pt) rows) 0,
           debit = IFNULL (SUM_of (\<lambda>(pt, p). pt_debit pt) rows) 0 \<rparr>)"

definition getComputedAccountBalanceUntilDate ::
  "database \<Rightarrow> int \<Rightarrow> int \<Rightarrow> int \<Rightarrow> jsval \<Rightarrow> real totals" where
  "getComputedAccountBalanceUntilDate db accountId date periodId includeMaxDate =
     (let dateOperator = (if truthy includeMaxDate then ''<='' else ''<'');
          rows = filter (\<lambda>l. gl_account_id l = accountId
                              \<and> sql_compare dateOperator (DATE (gl_trans_date l)) (DATE date)
                              \<and> gl_period_id l = periodId)
                        (tbl_general_ledger db)
      in \<lparr> balance = IFNULL (SUM_of (\<lambda>l. gl_debit_equiv l - gl_credit_equiv l) rows) 0,
           credit = IFNULL (SUM_of gl_credit rows) 0,
           debit = IFNULL (SUM_of gl_debit rows) 0 \<rparr>)"

subsection \<open>\<^verbatim>\<open>Number.prototype.toFixed\<close>\<close>

text \<open>
  The decimal digits of a natural number, and the rendering of a number with a fixed
  count of fraction digits: the nearest multiple of the last digit, the larger one on a
  tie, with the sign put in front. (For magnitudes from \<open>10\<^sup>2\<^sup>1\<close> on the language
  switches to exponent notation; ledger amounts stay far below.)
\<close>

fun digits :: "nat \<Rightarrow> string" where
  "digits n =
     (if n < 10 then [''0123456789'' ! n]
      else digits (n div 10) @ [''0123456789'' ! (n mod 10)])"

declare digits.simps [simp del]

definition pad_left :: "nat \<Rightarrow> string \<Rightarrow> string" where
  "pad_left k s = replicate (k - length s) CHR ''0'' @ s"

definition fixed_abs :: "nat \<Rightarrow> real \<Rightarrow> string" where
  "fixed_abs f x =
     (let n = nat \<lfloor>x * 10 ^ f + 1 / 2\<rfloor>;
          m = pad_left (Suc f) (digits n);
          k = length m - f
      in if f = 0 then m else take k m @ ''.'' @ drop k m)"

definition toFixed :: "nat \<Rightarrow> real \<Rightarrow> string" where
  "toFixed f x = (if x < 0 then ''-'' @ fixed_abs f (- x) else fixed_abs f x)"

text \<open>
  The default of the third parameter applies when the caller passes nothing, which the
  language reads as \<^verbatim>\<open>undefined\<close>.
\<close>

definition getOpeningBalanceForDate ::
  "database \<Rightarrow> int \<Rightarrow> int \<Rightarrow> jsval \<Rightarrow> error + string totals" where
  "getOpeningBalanceForDate db accountId date includeMaxDateArg =
     (let includeMaxDate = (if includeMaxDateArg = JUndefined then JBool True
                            else includeMaxDateArg)
      in case getFiscalYearForDate db date of
           Inl e \<Rightarrow> Inl e
         | Inr fiscalYearId \<Rightarrow>
             (let previousPeriodClosing =
                    getPeriodAccountBalanceUntilDate db accountId date fiscalYearId;
                  balance0 = 0 + balance previousPeriodClosing;
                  credit0 = 0 + credit previousPeriodClosing;
                  debit0 = 0 + debit previousPeriodClosing
              in case getPeriodForDate db date of
                   Inl e \<Rightarrow> Inl e
                 | Inr periodId \<Rightarrow>
                     (let runningPeriod =
                            getComputedAccountBalanceUntilDate db accountId date periodId
                              includeMaxDate
                      in Inr \<lparr> balance = toFixed 4 (balance0 + balance runningPeriod),
                               credit = toFixed 4 (credit0 + credit runningPeriod),
                               debit = toFixed 4 (debit0 + debit runningPeriod) \<rparr>)))"


subsection \<open>The sums in the words of the specification\<close>

text \<open>
  The period totals of an account that count before a date: those of the given fiscal
  year whose period is period 0 or ends strictly before the date. The ledger lines of an
  account in a period up to a date, the date itself included or not. The three sums the
  controller reports over ledger lines.
\<close>

definition prior_period_totals :: "database \<Rightarrow> int \<Rightarrow> int \<Rightarrow> int \<Rightarrow> period_total_row list" where
  "prior_period_totals db accountId date fiscalYearId =
     filter (\<lambda>pt. pt_account_id pt = accountId
                 \<and> (\<exists>p \<in> set (tbl_period db).
                       p_id p = pt_period_id pt
                     \<and> p_fiscal_year_id p = fiscalYearId
                     \<and> (p_number p = 0
                        \<or> (case p_end_date p of None \<Rightarrow> False
                                               | Some e \<Rightarrow> DATE e < DATE date))))
            (tbl_period_total db)"

definition in_period_lines :: "database \<Rightarrow> int \<Rightarrow> int \<Rightarrow> int \<Rightarrow> bool \<Rightarrow> general_ledger_row list" where
  "in_period_lines db accountId date periodId inclusive =
     filter (\<lambda>l. gl_account_id l = accountId
                \<and> gl_period_id l = periodId
                \<and> (if inclusive then DATE (gl_trans_date l) \<le> DATE date
                    else DATE (gl_trans_date l) < DATE date))
            (tbl_general_ledger db)"

definition totals_of ::
  "general_ledger_row list \<Rightarrow> real totals" where
  "totals_of ls =
     \<lparr> balance = sum_list (map (\<lambda>l. gl_debit_equiv l - gl_credit_equiv l) ls),
       credit = sum_list (map gl_credit ls),
       debit = sum_list (map gl_debit ls) \<rparr>"

subsection \<open>Four small ledgers\<close>

text \<open>
  One fiscal year of 365 days with its period 0 and a first period of 30 days. In the
  first ledger account 7 has an opening total and no ledger line; in the second it has
  two ledger lines in the first period, one of them in another currency (its equivalent
  amount differs from its amount), on day 9 and on day 10. The third ledger has period 0
  and no other period, and the opening total of account 7. The fourth has a second period
  as well, totals of account 7 in all three periods and of account 8 in period 0, and two
  ledger lines of account 7 in the second period whose equivalent amounts differ from
  their amounts, the later one on the day asked about.
\<close>

definition db7 :: database where
  "db7 = \<lparr> tbl_fiscal_year = [\<lparr> fy_id = 1, fy_start_date = 0, fy_end_date = 31536000 \<rparr>],
           tbl_period =
             [\<lparr> p_id = 10, p_fiscal_year_id = 1, p_number = 0,
                p_start_date = None, p_end_date = None \<rparr>,
              \<lparr> p_id = 11, p_fiscal_year_id = 1, p_number = 1,
                p_start_date = Some 0, p_end_date = Some 2592000 \<rparr>],
           tbl_period_total =
             [\<lparr> pt_account_id = 7, pt_period_id = 10, pt_debit = 100, pt_credit = 0 \<rparr>],
           tbl_general_ledger = [] \<rparr>"

definition db8 :: database where
  "db8 = \<lparr> tbl_fiscal_year = [\<lparr> fy_id = 1, fy_start_date = 0, fy_end_date = 31536000 \<rparr>],
           tbl_period =
             [\<lparr> p_id = 10, p_fiscal_year_id = 1, p_number = 0,
                p_start_date = None, p_end_date = None \<rparr>,
              \<lparr> p_id = 11, p_fiscal_year_id = 1, p_number = 1,
                p_start_date = Some 0, p_end_date = Some 2592000 \<rparr>],
           tbl_period_total = [],
           tbl_general_ledger =
             [\<lparr> gl_account_id = 7, gl_period_id = 11, gl_trans_date = 777600,
                gl_debit = 3, gl_credit = 0, gl_debit_equiv = 3, gl_credit_equiv = 0 \<rparr>,
              \<lparr> gl_account_id = 7, gl_period_id = 11, gl_trans_date = 900000,
                gl_debit = 10, gl_credit = 0, gl_debit_equiv = 5, gl_credit_equiv = 0 \<rparr>] \<rparr>"

definition db_period0 :: database where
  "db_period0 =
     \<lparr> tbl_fiscal_year = [\<lparr> fy_id = 1, fy_start_date = 0, fy_end_date = 31536000 \<rparr>],
       tbl_period =
         [\<lparr> p_id = 10, p_fiscal_year_id = 1, p_number = 0,
            p_start_date = None, p_end_date = None \<rparr>],
       tbl_period_total =
         [\<lparr> pt_account_id = 7, pt_period_id = 10, pt_debit = 100, pt_credit = 0 \<rparr>],
       tbl_general_ledger = [] \<rparr>"

definition db10 :: database where
  "db10 = \<lparr> tbl_fiscal_year = [\<lparr> fy_id = 1, fy_start_date = 0, fy_end_date = 31536000 \<rparr>],
            tbl_period =
              [\<lparr> p_id = 10, p_fiscal_year_id = 1, p_number = 0,
                 p_start_date = None, p_end_date = None \<rparr>,
               \<lparr> p_id = 11, p_fiscal_year_id = 1, p_number = 1,
                 p_start_date = Some 0, p_end_date = Some 2592000 \<rparr>,
               \<lparr> p_id = 12, p_fiscal_year_id = 1, p_number = 2,
                 p_start_date = Some 2678400, p_end_date = Some 5097600 \<rparr>],
            tbl_period_total =
              [\<lparr> pt_account_id = 7, pt_period_id = 10, pt_debit = 100, pt_credit = 40 \<rparr>,
               \<lparr> pt_account_id = 7, pt_period_id = 11, pt_debit = 20, pt_credit = 5 \<rparr>,
               \<lparr> pt_account_id = 7, pt_period_id = 12, pt_debit = 1000, pt_credit = 0 \<rparr>,
               \<lparr> pt_account_id = 8, pt_period_id = 10, pt_debit = 1, pt_credit = 1 \<rparr>],
            tbl_general_ledger =
              [\<lparr> gl_account_id = 7, gl_period_id = 12, gl_trans_date = 2700000,
                 gl_debit = 10, gl_credit = 0, gl_debit_equiv = 5, gl_credit_equiv = 0 \<rparr>,
               \<lparr> gl_account_id = 7, gl_period_id = 12, gl_trans_date = 2800000,
                 gl_debit = 0, gl_credit = 4, gl_debit_equiv = 0, gl_credit_equiv = 3 \<rparr>] \<rparr>"

section \<open>The journal: \<^verbatim>\<open>server/controllers/finance/journal\<close>\<close>

subsection \<open>Rows, dates and the environment\<close>

text \<open>
  A journal row is a plain object: a finite map from property names to values. Reading a
  property that is absent gives \<^verbatim>\<open>undefined\<close>; \<^verbatim>\<open>delete\<close> removes the property. The rows of
  a request body are distinct objects (the body is parsed JSON), so a row is identified by
  its position in the collection it came in, and the in-place mutation of the program
  becomes the replacement of the row at that position.
\<close>

type_synonym row = "string \<rightharpoonup> jsval"

definition get :: "row \<Rightarrow> string \<Rightarrow> jsval" where
  "get r k = (case r k of None \<Rightarrow> JUndefined | Some v \<Rightarrow> v)"

text \<open>
  \<^verbatim>\<open>new Date(v)\<close>: a date is copied, a string is parsed (by the host's parser, a parameter),
  anything else is read as a number of milliseconds, truncated, and is a valid time only
  within 8.64e15 of the epoch.
\<close>

definition TimeClip :: "real \<Rightarrow> int option" where
  "TimeClip t =
     (if \<bar>t\<bar> > 8640000000000000 then None
      else Some (if t \<ge> 0 then \<lfloor>t\<rfloor> else \<lceil>t\<rceil>))"

fun new_Date :: "(string \<Rightarrow> int option) \<Rightarrow> jsval \<Rightarrow> jsval" where
  "new_Date parse (JDate t) = JDate t"
| "new_Date parse (JStr s) = JDate (parse s)"
| "new_Date parse (JNum x) = JDate (TimeClip x)"
| "new_Date parse JNaN = JDate None"
| "new_Date parse JUndefined = JDate None"
| "new_Date parse JNull = JDate (Some 0)"
| "new_Date parse (JBool b) = JDate (Some (if b then 1 else 0))"

text \<open>The four lookups of the row transform, named as the query texts are.\<close>

datatype lookup_query =
    ACCOUNT_NUMBER_QUERY
  | ENTITY_QUERY
  | REFERENCE_QUERY
  | EXCHANGE_RATE_QUERY

text \<open>The statements an edit adds to its database transaction.\<close>

datatype statement =
    REMOVE_JOURNAL_ROW jsval
  | UPDATE_JOURNAL_ROW row jsval
  | INSERT_JOURNAL_ROW row
  | UPDATE_TRANSACTION_HISTORY row

text \<open>
  The two tables an edit writes, and the posted ledger it reads beside them. Rows are
  kept as the objects the driver exchanges.
\<close>

record store =
  posting_journal :: "row list"
  general_ledger :: "row list"
  transaction_history :: "row list"

text \<open>
  What the controller takes from its surroundings, none of it among the sources:
  \<^item> \<open>parse_date\<close>: the host's parser of date strings;
  \<^item> \<open>db_exec\<close>: the answer of the store to a lookup query with its parameters, the rows
    of the result or a failure of the round trip;
  \<^item> \<open>arrival_added\<close>, \<open>arrival_changed\<close>: the order in which the lookups issued together
    by the two runs of the row transform complete (see \<open>arrival\<close> below);
  \<^item> \<open>lookupFiscalYearByDate\<close>: the fiscal service, which resolves a date to the calendar
    entry the controller reads \<open>locked\<close>, \<open>label\<close>, \<open>fiscal_year_id\<close> and \<open>id\<close> from (the
    identifier of the fiscal year and the identifier of the period), or fails;
  \<^item> \<open>uuid\<close>: the fresh identifier of the history record;
  \<^item> \<open>store_rejects\<close>: whether the store rejects a database transaction (a constraint
    violation, a lost connection), and with which error.
\<close>

record env =
  parse_date :: "string \<Rightarrow> int option"
  db_exec :: "lookup_query \<Rightarrow> jsval list \<Rightarrow> error + row list"
  arrival_added :: "nat \<Rightarrow> nat"
  arrival_changed :: "nat \<Rightarrow> nat"
  lookupFiscalYearByDate :: "jsval \<Rightarrow> error + row"
  uuid :: jsval
  store_rejects :: "store \<Rightarrow> statement list \<Rightarrow> error option"

text \<open>
  Identifiers are kept in one representation: the conversion between the transport string
  and the stored binary (\<^verbatim>\<open>db.bid\<close>, \<^verbatim>\<open>db.convert\<close>, \<^verbatim>\<open>BUID\<close>) is the identity here.
\<close>

definition bid :: "jsval \<Rightarrow> jsval" where
  "bid v = v"

subsection \<open>Loading a transaction\<close>

text \<open>
  \<open>buildTransactionQuery\<close> for the option \<open>record_uuid\<close>: the rows of one table with that
  record identifier, each with the column \<open>posted\<close> the query adds (the engine renders the
  spliced \<^verbatim>\<open>true\<close> and \<^verbatim>\<open>false\<close> as 1 and 0). The joined display columns are left out: the
  edit never reads them from a loaded row. Every row is taken to have its project,
  period, account, user and currency, so that the inner joins of the query drop none,
  and reading the tables is taken to succeed.
\<close>

definition buildTransactionQuery :: "store \<Rightarrow> jsval \<Rightarrow> bool \<Rightarrow> row list" where
  "buildTransactionQuery st recordUuid posted =
     map (\<lambda>p. p(''posted'' \<mapsto> JNum (if posted then 1 else 0)))
         (filter (\<lambda>p. get p ''record_uuid'' = recordUuid)
                 (if posted then general_ledger st else posting_journal st))"

definition date_key :: "jsval \<Rightarrow> int" where
  "date_key v = (case v of JDate (Some t) \<Rightarrow> t | _ \<Rightarrow> 0)"

text \<open>
  \<open>naiveTransactionSearch\<close> with non-posted rows included and no limit: the posted rows,
  then the journal's, ordered by descending transaction date (rows of equal date keep the
  order of the union).
\<close>

definition naiveTransactionSearch :: "store \<Rightarrow> jsval \<Rightarrow> row list" where
  "naiveTransactionSearch st recordUuid =
     sort_key (\<lambda>p. - date_key (get p ''trans_date''))
       (buildTransactionQuery st recordUuid True @ buildTransactionQuery st recordUuid False)"

definition lookupTransaction :: "store \<Rightarrow> jsval \<Rightarrow> error + row list" where
  "lookupTransaction st recordUuid =
     (let result = naiveTransactionSearch st recordUuid
      in if length result = 0 then Inl NotFound else Inr result)"

subsection \<open>The transaction date\<close>

text \<open>
  The changed rows arrive as an object keyed by row identifier, here the list of its
  entries in iteration order; a missing argument defaults to the empty object. The last
  element of the dates is popped, \<^verbatim>\<open>undefined\<close> when there is none.
\<close>

definition getTransactionDate :: "(string \<times> row) list option \<Rightarrow> row list \<Rightarrow> jsval" where
  "getTransactionDate changedRowsArg oldRows =
     (let changedRows = (case changedRowsArg of None \<Rightarrow> [] | Some c \<Rightarrow> c);
          changes = map (\<lambda>(uid, row). row) changedRows;
          rows = oldRows @ changes;
          dates = map (\<lambda>row. get row ''trans_date'')
                      (filter (\<lambda>row. truthy (get row ''trans_date'')) rows)
      in if dates = [] then JUndefined else last dates)"

subsection \<open>The row transform\<close>

text \<open>
  A scheduled lookup is one entry of the three parallel arrays \<open>databaseRequests\<close>,
  \<open>databaseValues\<close> and \<open>assignments\<close>: the query, its parameters, and the closure that
  writes the answer, which is determined by the property it writes and the row it holds.
\<close>

datatype assignment =
    Assign_account_id
  | Assign_entity_uuid
  | Assign_reference_uuid
  | Assign_debit
  | Assign_credit

type_synonym request = "lookup_query \<times> jsval list \<times> assignment \<times> nat"

text \<open>
  The body of the loop over the rows, for the row at position \<open>i\<close>: the synchronous edits
  of the row and the lookups it schedules, or the exception of a new row without account.
\<close>

definition schedule_row ::
  "env \<Rightarrow> bool \<Rightarrow> jsval \<Rightarrow> jsval \<Rightarrow> jsval \<Rightarrow> row \<Rightarrow> nat \<Rightarrow> row
     \<Rightarrow> error + row \<times> request list" where
  "schedule_row en newRecord projectId transactionDate currencyId setFiscalData i row0 =
     (if newRecord \<and> \<not> truthy (get row0 ''account_number'')
      then Inl (BadRequest EDIT_INVALID_ACCOUNT)
      else
        (let q1 = (if truthy (get row0 ''account_number'')
                   then [(ACCOUNT_NUMBER_QUERY, [get row0 ''account_number''],
                          Assign_account_id, i)]
                   else []);
             row1 = (if truthy (get row0 ''account_number'')
                     then row0(''account_number'' := None) else row0);
             row2 = (if truthy (get row1 ''account_name'')
                     then row1(''account_name'' := None) else row1);
             row3 = (if truthy (get row2 ''account_label'')
                     then row2(''account_label'' := None) else row2);
             q2 = (if truthy (get row3 ''hrEntity'')
                   then [(ENTITY_QUERY, [get row3 ''hrEntity''], Assign_entity_uuid, i)]
                   else []);
             row4 = (if truthy (get row3 ''hrEntity'')
                     then row3(''hrEntity'' := None) else row3);
             q3 = (if truthy (get row4 ''hrReference'')
                   then [(REFERENCE_QUERY, [get row4 ''hrReference''],
                          Assign_reference_uuid, i)]
                   else []);
             row5 = (if truthy (get row4 ''hrReference'')
                     then row4(''hrReference'' := None) else row4);
             transDate = new_Date (parse_date en)
                           (if truthy (get row5 ''trans_date'') then get row5 ''trans_date''
                            else transactionDate);
             q4 = (if truthy (get row5 ''debit_equiv'')
                   then [(EXCHANGE_RATE_QUERY,
                          [get row5 ''debit_equiv'', currencyId, currencyId, transDate,
                           projectId],
                          Assign_debit, i)]
                   else []);
             q5 = (if truthy (get row5 ''credit_equiv'')
                   then [(EXCHANGE_RATE_QUERY,
                          [get row5 ''credit_equiv'', currencyId, currencyId, transDate,
                           projectId],
                          Assign_credit, i)]
                   else []);
             row6 = (if truthy (get row5 ''trans_date'')
                     then row5(''trans_date'' \<mapsto> new_Date (parse_date en) (get row5 ''trans_date''),
                               ''fiscal_year_id'' \<mapsto> get setFiscalData ''fiscal_year_id'',
                               ''period_id'' \<mapsto> get setFiscalData ''id'')
                     else row5)
         in Inr (row6, q1 @ q2 @ q3 @ q4 @ q5)))"

text \<open>The loop: rows in order from position \<open>i\<close>, stopping at the first exception.\<close>

fun schedule_rows ::
  "env \<Rightarrow> bool \<Rightarrow> jsval \<Rightarrow> jsval \<Rightarrow> jsval \<Rightarrow> row \<Rightarrow> nat \<Rightarrow> row list
     \<Rightarrow> error + row list \<times> request list" where
  "schedule_rows en newRecord projectId transactionDate currencyId setFiscalData i [] =
     Inr ([], [])"
| "schedule_rows en newRecord projectId transactionDate currencyId setFiscalData i (r # rs) =
     (case schedule_row en newRecord projectId transactionDate currencyId setFiscalData i r of
        Inl e \<Rightarrow> Inl e
      | Inr (r', qs) \<Rightarrow>
          (case schedule_rows en newRecord projectId transactionDate currencyId setFiscalData
                  (Suc i) rs of
             Inl e \<Rightarrow> Inl e
           | Inr (rs', qs') \<Rightarrow> Inr (r' # rs', qs @ qs')))"

text \<open>
  The five closures. An empty answer to a code lookup is an invalid code; the amount of a
  conversion is taken by destructuring the first row of the answer, which throws when there
  is none, and an amount that is falsy is a missing rate.
\<close>

fun assign :: "assignment \<Rightarrow> row list \<Rightarrow> row \<Rightarrow> error + row" where
  "assign Assign_account_id result row =
     (if length result = 0 then Inl (BadRequest EDIT_INVALID_ACCOUNT)
      else Inr (row(''account_id'' \<mapsto> get (hd result) ''id'')))"
| "assign Assign_entity_uuid result row =
     (if length result = 0 then Inl (BadRequest EDIT_INVALID_ENTITY)
      else Inr (row(''entity_uuid'' \<mapsto> get (hd result) ''uuid'')))"
| "assign Assign_reference_uuid result row =
     (if length result = 0 then Inl (BadRequest EDIT_INVALID_REFERENCE)
      else Inr (row(''reference_uuid'' \<mapsto> get (hd result) ''uuid'')))"
| "assign Assign_debit result row =
     (case result of
        [] \<Rightarrow> Inl TypeError
      | r # _ \<Rightarrow>
          (let amount = get r ''amount''
           in if \<not> truthy amount then Inl (BadRequest MISSING_EXCHANGE_RATE)
              else Inr (row(''debit'' \<mapsto> amount))))"
| "assign Assign_credit result row =
     (case result of
        [] \<Rightarrow> Inl TypeError
      | r # _ \<Rightarrow>
          (let amount = get r ''amount''
           in if \<not> truthy amount then Inl (BadRequest MISSING_EXCHANGE_RATE)
              else Inr (row(''credit'' \<mapsto> amount))))"

text \<open>One promise: the round trip, then the closure on its row.\<close>

fun settle_one :: "env \<Rightarrow> request \<Rightarrow> row list \<Rightarrow> error + row list" where
  "settle_one en (request, params, asg, i) rows =
     (case db_exec en request params of
        Inl e \<Rightarrow> Inl e
      | Inr results \<Rightarrow>
          (case assign asg results (rows ! i) of
             Inl e \<Rightarrow> Inl e
           | Inr r \<Rightarrow> Inr (rows[i := r])))"

text \<open>
  The lookups are issued together and complete in an order the program does not control.
  An order is given by a choice for each lookup of how many of the lookups issued after
  it complete before it (taken modulo their number plus one); every order arises so.
\<close>

fun arrival :: "(nat \<Rightarrow> nat) \<Rightarrow> 'a list \<Rightarrow> 'a list" where
  "arrival sched [] = []"
| "arrival sched (x # xs) =
     (let ys = arrival sched xs;
          k = sched (length xs) mod Suc (length xs)
      in take k ys @ x # drop k ys)"

text \<open>
  The callbacks run one at a time, in the order of completion. \<^verbatim>\<open>q.all\<close> is rejected by the
  first promise that is rejected and is fulfilled, with the rows, when all are fulfilled.
  (The closures of lookups completing after a rejection still run, on rows nobody reads
  any more.)
\<close>

fun settle :: "env \<Rightarrow> request list \<Rightarrow> row list \<Rightarrow> error + row list" where
  "settle en [] rows = Inr rows"
| "settle en (q # qs) rows =
     (case settle_one en q rows of
        Inl e \<Rightarrow> Inl e
      | Inr rows' \<Rightarrow> settle en qs rows')"

definition transformColumns ::
  "env \<Rightarrow> (nat \<Rightarrow> nat) \<Rightarrow> row list \<Rightarrow> bool \<Rightarrow> row list \<Rightarrow> row \<Rightarrow> error + row list" where
  "transformColumns en sched rows newRecord transactionToEdit setFiscalData =
     (case transactionToEdit of
        [] \<Rightarrow> Inl TypeError
      | t0 # _ \<Rightarrow>
          (let projectId = get t0 ''project_id'';
               transactionDate = get t0 ''trans_date'';
               currencyId = get t0 ''currency_id''
           in case schedule_rows en newRecord projectId transactionDate currencyId
                     setFiscalData 0 rows of
                Inl e \<Rightarrow> Inl e
              | Inr (rows', requests) \<Rightarrow> settle en (arrival sched requests) rows'))"

subsection \<open>Editing a transaction\<close>

text \<open>The body of \<^verbatim>\<open>PUT /journal/:record_uuid\<close> with the identifier and the acting user.\<close>

record edit_request =
  record_uuid :: jsval
  changed :: "(string \<times> row) list"
  added :: "row list"
  removed :: "row list"
  user_id :: jsval

text \<open>
  Everything the handler does before it executes its database transaction: the statements
  it has added to it, or the error the promise chain is rejected with. Nothing here
  writes to the store.
\<close>

definition buildTransaction :: "env \<Rightarrow> store \<Rightarrow> edit_request \<Rightarrow> error + statement list" where
  "buildTransaction en st rq =
     (let recordUuid = record_uuid rq;
          rowsChanged = changed rq;
          rowsAdded = added rq;
          rowsRemoved = removed rq;
          removals = map (\<lambda>row. REMOVE_JOURNAL_ROW (bid (get row ''uuid''))) rowsRemoved
      in case lookupTransaction st recordUuid of
           Inl e \<Rightarrow> Inl e
         | Inr transactionToEdit \<Rightarrow>
             (case transactionToEdit of
                [] \<Rightarrow> Inl TypeError
              | t0 # _ \<Rightarrow>
                  if truthy (get t0 ''posted'')
                  then Inl (BadRequest TRANSACTION_ALREADY_POSTED)
                  else
                    (let allRowsRemoved =
                           (length rowsAdded = 0
                            \<and> length rowsRemoved \<ge> length transactionToEdit);
                         singleRow =
                           ((int (length rowsAdded) - int (length rowsRemoved))
                              + int (length transactionToEdit) = 1)
                     in if allRowsRemoved \<or> singleRow
                        then Inl (BadRequest TRANSACTION_MUST_CONTAIN_ROWS)
                        else
                          (let transDate =
                                 getTransactionDate (Some rowsChanged) transactionToEdit
                           in case lookupFiscalYearByDate en transDate of
                                Inl e \<Rightarrow> Inl e
                              | Inr fiscalYear \<Rightarrow>
                                  if truthy (get fiscalYear ''locked'')
                                  then Inl (BadRequest CLOSED_FISCAL_YEAR)
                                  else
                                    (case transformColumns en (arrival_added en) rowsAdded
                                            True transactionToEdit fiscalYear of
                                       Inl e \<Rightarrow> Inl e
                                     | Inr inserted \<Rightarrow>
                                         (case transformColumns en (arrival_changed en)
                                                 (map snd rowsChanged) False
                                                 transactionToEdit fiscalYear of
                                            Inl e \<Rightarrow> Inl e
                                          | Inr updated \<Rightarrow>
                                              (let transactionHistory =
                                                     [''uuid'' \<mapsto> bid (uuid en),
                                                      ''record_uuid'' \<mapsto>
                                                         bid (get t0 ''record_uuid''),
                                                      ''user_id'' \<mapsto> user_id rq]
                                               in Inr (removals
                                                       @ map INSERT_JOURNAL_ROW inserted
                                                       @ map (\<lambda>(uid, row).
                                                              UPDATE_JOURNAL_ROW row
                                                                (bid (JStr uid)))
                                                             (zip (map fst rowsChanged)
                                                                  updated)
                                                       @ [UPDATE_TRANSACTION_HISTORY
                                                            transactionHistory]))))))))"

text \<open>
  Modelled from the spec: the database transaction of \<^verbatim>\<open>lib/db\<close>, which is not among the
  sources. Its statements are applied in the order they were added, as one atomic unit:
  when the store rejects it, none of the mutations is visible. The four statements are
  the four SQL texts of the handler: delete the journal row with the identifier, set the
  given columns of the journal row with the identifier, add a journal row, add a history
  row.
\<close>

fun run_statement :: "statement \<Rightarrow> store \<Rightarrow> store" where
  "run_statement (REMOVE_JOURNAL_ROW u) st =
     st\<lparr> posting_journal := filter (\<lambda>p. get p ''uuid'' \<noteq> u) (posting_journal st) \<rparr>"
| "run_statement (UPDATE_JOURNAL_ROW row u) st =
     st\<lparr> posting_journal :=
           map (\<lambda>p. if get p ''uuid'' = u then p ++ row else p) (posting_journal st) \<rparr>"
| "run_statement (INSERT_JOURNAL_ROW row) st =
     st\<lparr> posting_journal := posting_journal st @ [row] \<rparr>"
| "run_statement (UPDATE_TRANSACTION_HISTORY row) st =
     st\<lparr> transaction_history := transaction_history st @ [row] \<rparr>"

definition execute :: "env \<Rightarrow> store \<Rightarrow> statement list \<Rightarrow> error + store" where
  "execute en st statements =
     (case store_rejects en st statements of
        Some e \<Rightarrow> Inl e
      | None \<Rightarrow> Inr (fold run_statement statements st))"

text \<open>
  The handler: the answer it sends (the refreshed rows, or the error handed on) and the
  store it leaves behind.
\<close>

definition editTransaction ::
  "env \<Rightarrow> store \<Rightarrow> edit_request \<Rightarrow> (error + row list) \<times> store" where
  "editTransaction en st rq =
     (case buildTransaction en st rq of
        Inl e \<Rightarrow> (Inl e, st)
      | Inr statements \<Rightarrow>
          (case execute en st statements of
             Inl e \<Rightarrow> (Inl e, st)
           | Inr st' \<Rightarrow> (lookupTransaction st' (record_uuid rq), st')))"

subsection \<open>Notions for stating the properties of the row transform\<close>

text \<open>
  The property a closure writes, the answer a scheduled lookup ends with (the value its
  closure writes, or the error of the round trip or of the closure), the row and property
  a lookup is bound to, and the effect of a successful lookup on the rows. Then the
  result of the synchronous part of the loop in closed form: the lookups a row schedules,
  the conditional deletion of a display property, the stamping of the date and the
  calendar identifiers, and the row after all of them.
\<close>

definition field_of :: "assignment \<Rightarrow> string" where
  "field_of a = (case a of
       Assign_account_id \<Rightarrow> ''account_id''
     | Assign_entity_uuid \<Rightarrow> ''entity_uuid''
     | Assign_reference_uuid \<Rightarrow> ''reference_uuid''
     | Assign_debit \<Rightarrow> ''debit''
     | Assign_credit \<Rightarrow> ''credit'')"

definition lookup_outcome :: "env \<Rightarrow> request \<Rightarrow> error + jsval" where
  "lookup_outcome en q =
     (case q of (request, params, asg, i) \<Rightarrow>
        (case db_exec en request params of
           Inl e \<Rightarrow> Inl e
         | Inr results \<Rightarrow>
             (case assign asg results Map.empty of
                Inl e \<Rightarrow> Inl e
              | Inr r \<Rightarrow> Inr (get r (field_of asg)))))"

definition slot :: "request \<Rightarrow> nat \<times> assignment" where
  "slot q = (case q of (request, params, asg, i) \<Rightarrow> (i, asg))"

definition put_answer :: "env \<Rightarrow> request \<Rightarrow> row list \<Rightarrow> row list" where
  "put_answer en q rows =
     (case lookup_outcome en q of
        Inl e \<Rightarrow> rows
      | Inr v \<Rightarrow> rows[fst (slot q) := (rows ! fst (slot q))(field_of (snd (slot q)) \<mapsto> v)])"

definition expected_requests ::
  "env \<Rightarrow> jsval \<Rightarrow> jsval \<Rightarrow> jsval \<Rightarrow> nat \<Rightarrow> row \<Rightarrow> request list" where
  "expected_requests en projectId transactionDate currencyId i row =
     (let transDate = new_Date (parse_date en)
                        (if truthy (get row ''trans_date'') then get row ''trans_date''
                         else transactionDate)
      in (if truthy (get row ''account_number'')
          then [(ACCOUNT_NUMBER_QUERY, [get row ''account_number''], Assign_account_id, i)]
          else [])
       @ (if truthy (get row ''hrEntity'')
          then [(ENTITY_QUERY, [get row ''hrEntity''], Assign_entity_uuid, i)] else [])
       @ (if truthy (get row ''hrReference'')
          then [(REFERENCE_QUERY, [get row ''hrReference''], Assign_reference_uuid, i)] else [])
       @ (if truthy (get row ''debit_equiv'')
          then [(EXCHANGE_RATE_QUERY,
                 [get row ''debit_equiv'', currencyId, currencyId, transDate, projectId],
                 Assign_debit, i)] else [])
       @ (if truthy (get row ''credit_equiv'')
          then [(EXCHANGE_RATE_QUERY,
                 [get row ''credit_equiv'', currencyId, currencyId, transDate, projectId],
                 Assign_credit, i)] else []))"

definition discard :: "string \<Rightarrow> row \<Rightarrow> row" where
  "discard k r = (if truthy (get r k) then r(k := None) else r)"

definition stamp :: "env \<Rightarrow> row \<Rightarrow> row \<Rightarrow> row" where
  "stamp en setFiscalData r =
     (if truthy (get r ''trans_date'')
      then r(''trans_date'' \<mapsto> new_Date (parse_date en) (get r ''trans_date''),
             ''fiscal_year_id'' \<mapsto> get setFiscalData ''fiscal_year_id'',
             ''period_id'' \<mapsto> get setFiscalData ''id'')
      else r)"

definition edited_row :: "env \<Rightarrow> row \<Rightarrow> row \<Rightarrow> row" where
  "edited_row en setFiscalData row =
     stamp en setFiscalData
       (discard ''hrReference'' (discard ''hrEntity'' (discard ''account_label''
         (discard ''account_name'' (discard ''account_number'' row)))))"

fun requests_from ::
  "env \<Rightarrow> jsval \<Rightarrow> jsval \<Rightarrow> jsval \<Rightarrow> nat \<Rightarrow> row list \<Rightarrow> request list" where
  "requests_from en pid td cid i [] = []"
| "requests_from en pid td cid i (r # rs) =
     expected_requests en pid td cid i r @ requests_from en pid td cid (Suc i) rs"

text \<open>
  For stating what a lookup wrote: whether a value is a date object, the named column of
  the first row of the store's answer to a query (nothing when the round trip fails or the
  answer is empty), the parameters of the conversion of one amount of a row, and the
  relation between a row as it came in and the row after the transform: each property
  with a lookup holds the answer to the row's own lookup, each other is as it was.
\<close>

definition is_date :: "jsval \<Rightarrow> bool" where
  "is_date v = (case v of JDate t \<Rightarrow> True | _ \<Rightarrow> False)"

definition first_answer :: "env \<Rightarrow> lookup_query \<Rightarrow> jsval list \<Rightarrow> string \<Rightarrow> jsval option" where
  "first_answer en request params column =
     (case db_exec en request params of
        Inl e \<Rightarrow> None
      | Inr results \<Rightarrow> (case results of [] \<Rightarrow> None | r # _ \<Rightarrow> Some (get r column)))"

definition rate_params :: "env \<Rightarrow> row list \<Rightarrow> row \<Rightarrow> string \<Rightarrow> jsval list" where
  "rate_params en transactionToEdit row source =
     [get row source,
      get (hd transactionToEdit) ''currency_id'',
      get (hd transactionToEdit) ''currency_id'',
      new_Date (parse_date en)
        (if truthy (get row ''trans_date'') then get row ''trans_date''
         else get (hd transactionToEdit) ''trans_date''),
      get (hd transactionToEdit) ''project_id'']"

definition answered :: "env \<Rightarrow> row list \<Rightarrow> row \<Rightarrow> row \<Rightarrow> bool" where
  "answered en transactionToEdit row result =
     ((if truthy (get row ''account_number'')
       then first_answer en ACCOUNT_NUMBER_QUERY [get row ''account_number''] ''id''
              = Some (get result ''account_id'')
       else result ''account_id'' = row ''account_id'')
    \<and> (if truthy (get row ''hrEntity'')
       then first_answer en ENTITY_QUERY [get row ''hrEntity''] ''uuid''
              = Some (get result ''entity_uuid'')
       else result ''entity_uuid'' = row ''entity_uuid'')
    \<and> (if truthy (get row ''hrReference'')
       then first_answer en REFERENCE_QUERY [get row ''hrReference''] ''uuid''
              = Some (get result ''reference_uuid'')
       else result ''reference_uuid'' = row ''reference_uuid'')
    \<and> (if truthy (get row ''debit_equiv'')
       then first_answer en EXCHANGE_RATE_QUERY
              (rate_params en transactionToEdit row ''debit_equiv'') ''amount''
              = Some (get result ''debit'')
       else result ''debit'' = row ''debit'')
    \<and> (if truthy (get row ''credit_equiv'')
       then first_answer en EXCHANGE_RATE_QUERY
              (rate_params en transactionToEdit row ''credit_equiv'') ''amount''
              = Some (get result ''credit'')
       else result ''credit'' = row ''credit''))"

text \<open>The journal row a statement carries to the store, when it carries one.\<close>

definition statement_row :: "statement \<Rightarrow> row option" where
  "statement_row s =
     (case s of
        INSERT_JOURNAL_ROW row \<Rightarrow> Some row
      | UPDATE_JOURNAL_ROW row u \<Rightarrow> Some row
      | _ \<Rightarrow> None)"

subsection \<open>The transaction date in the words of the specification\<close>

text \<open>
  The last date among rows that carry one, and the effective date as the specification
  words it: the latest date among the changed rows, else among the added rows, else among
  the existing rows.
\<close>

definition last_date :: "row list \<Rightarrow> jsval option" where
  "last_date rows =
     (let dates = filter truthy (map (\<lambda>row. get row ''trans_date'') rows)
      in if dates = [] then None else Some (last dates))"

definition effective_date_as_specified ::
  "(string \<times> row) list \<Rightarrow> row list \<Rightarrow> row list \<Rightarrow> jsval" where
  "effective_date_as_specified changedRows addedRows existingRows =
     (case last_date (map snd changedRows) of
        Some d \<Rightarrow> d
      | None \<Rightarrow>
          (case last_date addedRows of
             Some d \<Rightarrow> d
           | None \<Rightarrow>
               (case last_date existingRows of
                  Some d \<Rightarrow> d
                | None \<Rightarrow> JUndefined)))"

subsection \<open>A small journal\<close>

text \<open>
  Transaction \<open>t1\<close> has two rows in the journal, transaction \<open>t2\<close> two rows in the ledger.
  Accounts 1100 and 2200 exist, no entity and no document does, and every amount converts
  at the rate 2 (an amount sent as a string has no rate: its conversion is \<^verbatim>\<open>NULL\<close>). The fiscal service resolves every date into fiscal year 3, the date
  2024-02-15 into period 32 and any other date into period 31; nothing is locked and the
  store rejects nothing. The lookups of added rows complete in the order they were
  issued in, those of changed rows in the reverse order.
\<close>

definition rowA :: row where
  "rowA = [''uuid'' \<mapsto> JStr ''a'', ''record_uuid'' \<mapsto> JStr ''t1'',
           ''trans_date'' \<mapsto> JDate (Some 1704067200000),
           ''project_id'' \<mapsto> JNum 1, ''currency_id'' \<mapsto> JNum 2]"

definition rowB :: row where
  "rowB = [''uuid'' \<mapsto> JStr ''b'', ''record_uuid'' \<mapsto> JStr ''t1'',
           ''trans_date'' \<mapsto> JDate (Some 1704067200000),
           ''project_id'' \<mapsto> JNum 1, ''currency_id'' \<mapsto> JNum 2]"

definition rowP :: row where
  "rowP = [''uuid'' \<mapsto> JStr ''p'', ''record_uuid'' \<mapsto> JStr ''t2'',
           ''trans_date'' \<mapsto> JDate (Some 1704067200000),
           ''project_id'' \<mapsto> JNum 1, ''currency_id'' \<mapsto> JNum 2]"

definition rowQ :: row where
  "rowQ = [''uuid'' \<mapsto> JStr ''q'', ''record_uuid'' \<mapsto> JStr ''t2'',
           ''trans_date'' \<mapsto> JDate (Some 1704067200000),
           ''project_id'' \<mapsto> JNum 1, ''currency_id'' \<mapsto> JNum 2]"

definition store0 :: store where
  "store0 = \<lparr> posting_journal = [rowA, rowB], general_ledger = [rowP, rowQ],
              transaction_history = [] \<rparr>"

definition env0 :: env where
  "env0 = \<lparr> parse_date = (\<lambda>s. if s = ''2024-02-15'' then Some 1707955200000 else None),
            db_exec = (\<lambda>request params.
               case request of
                 ACCOUNT_NUMBER_QUERY \<Rightarrow>
                   (if params = [JNum 1100] then Inr [[''id'' \<mapsto> JNum 11]]
                    else if params = [JNum 2200] then Inr [[''id'' \<mapsto> JNum 22]]
                    else Inr [])
               | ENTITY_QUERY \<Rightarrow> Inr []
               | REFERENCE_QUERY \<Rightarrow> Inr []
               | EXCHANGE_RATE_QUERY \<Rightarrow>
                   (case params of
                      JNum x # _ \<Rightarrow> Inr [[''amount'' \<mapsto> JNum (x * 2)]]
                    | JStr s # _ \<Rightarrow> Inr [[''amount'' \<mapsto> JNull]]
                    | _ \<Rightarrow> Inr [])),
            arrival_added = (\<lambda>n. 0),
            arrival_changed = (\<lambda>n. n),
            lookupFiscalYearByDate = (\<lambda>d.
               if d = JStr ''2024-02-15''
               then Inr [''fiscal_year_id'' \<mapsto> JNum 3, ''id'' \<mapsto> JNum 32,
                         ''locked'' \<mapsto> JNum 0]
               else Inr [''fiscal_year_id'' \<mapsto> JNum 3, ''id'' \<mapsto> JNum 31,
                         ''locked'' \<mapsto> JNum 0]),
            uuid = JStr ''h'',
            store_rejects = (\<lambda>st statements. None) \<rparr>"

definition request_on_posted :: edit_request where
  "request_on_posted =
     \<lparr> record_uuid = JStr ''t2'',
       changed = [(''p'', [''trans_date'' \<mapsto> JStr ''2024-02-15''])],
       added = [], removed = [], user_id = JNum 1 \<rparr>"

definition request_removing_twice :: edit_request where
  "request_removing_twice =
     \<lparr> record_uuid = JStr ''t1'', changed = [],
       added = [[''uuid'' \<mapsto> JStr ''n'', ''record_uuid'' \<mapsto> JStr ''t1'',
                 ''account_number'' \<mapsto> JNum 1100]],
       removed = [rowA, rowB, rowA], user_id = JNum 1 \<rparr>"

definition request_changing_date :: edit_request where
  "request_changing_date =
     \<lparr> record_uuid = JStr ''t1'',
       changed = [(''a'', [''trans_date'' \<mapsto> JStr ''2024-02-15''])],
       added = [], removed = [], user_id = JNum 1 \<rparr>"

definition request_adding_dated_row :: edit_request where
  "request_adding_dated_row =
     \<lparr> record_uuid = JStr ''t1'', changed = [],
       added = [[''uuid'' \<mapsto> JStr ''n'', ''record_uuid'' \<mapsto> JStr ''t1'',
                 ''account_number'' \<mapsto> JNum 1100,
                 ''trans_date'' \<mapsto> JStr ''2024-02-15'']],
       removed = [], user_id = JNum 1 \<rparr>"

definition request_with_unknown_account :: edit_request where
  "request_with_unknown_account =
     \<lparr> record_uuid = JStr ''t1'',
       changed = [(''a'', [''account_number'' \<mapsto> JNum 9999])],
       added = [[''uuid'' \<mapsto> JStr ''n'', ''record_uuid'' \<mapsto> JStr ''t1'',
                 ''account_number'' \<mapsto> JNum 1100]],
       removed = [rowB], user_id = JNum 1 \<rparr>"

definition request_redating :: edit_request where
  "request_redating =
     \<lparr> record_uuid = JStr ''t1'',
       changed = [(''a'', [''trans_date'' \<mapsto> JStr ''2024-02-15''])],
       added = [[''uuid'' \<mapsto> JStr ''n'', ''record_uuid'' \<mapsto> JStr ''t1'',
                 ''account_number'' \<mapsto> JNum 1100,
                 ''trans_date'' \<mapsto> JStr ''2024-02-15'']],
       removed = [rowB], user_id = JNum 1 \<rparr>"

definition request_with_zero_debit :: edit_request where
  "request_with_zero_debit =
     \<lparr> record_uuid = JStr ''t1'', changed = [],
       added = [[''uuid'' \<mapsto> JStr ''n'', ''record_uuid'' \<mapsto> JStr ''t1'',
                 ''account_number'' \<mapsto> JNum 1100,
                 ''debit_equiv'' \<mapsto> JNum 0, ''credit_equiv'' \<mapsto> JNum 5]],
       removed = [], user_id = JNum 1 \<rparr>"

definition rows_with_amounts :: "row list" where
  "rows_with_amounts =
     [[''account_number'' \<mapsto> JNum 1100, ''debit_equiv'' \<mapsto> JNum 5],
      [''account_number'' \<mapsto> JNum 2200, ''credit_equiv'' \<mapsto> JNum 3]]"

definition request_without_rate :: edit_request where
  "request_without_rate =
     \<lparr> record_uuid = JStr ''t1'', changed = [],
       added = [[''uuid'' \<mapsto> JStr ''n'', ''record_uuid'' \<mapsto> JStr ''t1'',
                 ''account_number'' \<mapsto> JNum 1100, ''credit_equiv'' \<mapsto> JStr ''7'']],
       removed = [], user_id = JNum 1 \<rparr>"

definition request_converting :: edit_request where
  "request_converting =
     \<lparr> record_uuid = JStr ''t1'',
       changed = [(''a'', [''debit_equiv'' \<mapsto> JNum 5])],
       added = [], removed = [], user_id = JNum 1 \<rparr>"

definition request_with_two_failures :: edit_request where
  "request_with_two_failures =
     \<lparr> record_uuid = JStr ''t1'', changed = [],
       added = [[''uuid'' \<mapsto> JStr ''n'', ''record_uuid'' \<mapsto> JStr ''t1'',
                 ''account_number'' \<mapsto> JNum 9999, ''credit_equiv'' \<mapsto> JStr ''7'']],
       removed = [], user_id = JNum 1 \<rparr>"


section \<open>Properties of the account balances\<close>

subsection \<open>Auxiliary facts\<close>

lemma IFNULL_SUM_of: "IFNULL (SUM_of f rows) 0 = sum_list (map f rows)"
  by (simp add: IFNULL_def SUM_of_def)

lemma filter_key_at_most_one:
  "distinct (map g ps) \<Longrightarrow> length (filter (\<lambda>p. g p = k \<and> B p) ps) \<le> 1"
proof (induction ps)
  case Nil
  then show ?case by simp
next
  case (Cons p ps)
  have "g p \<notin> g ` set ps" using Cons.prems by simp
  then have "g p = k \<Longrightarrow> filter (\<lambda>q. g q = k \<and> B q) ps = []"
    by (auto simp: filter_empty_conv) (metis imageI)
  with Cons show ?case by auto
qed

lemma sum_const_at_most_one:
  assumes "length xs \<le> 1"
  shows "sum_list (map (\<lambda>_. c) xs) = (if xs = [] then 0 else (c::real))"
proof (cases xs)
  case Nil
  then show ?thesis by simp
next
  case (Cons x ys)
  with assms have "ys = []" by simp
  with Cons show ?thesis by simp
qed

lemma join_sum:
  assumes d: "distinct (map p_id ps)"
  shows "sum_list (map (\<lambda>(pt, p). (f pt :: real))
           (filter (\<lambda>(pt, p). A pt \<and> B p)
              (concat (map (\<lambda>pt. map (\<lambda>p. (pt, p)) (filter (\<lambda>p. p_id p = pt_period_id pt) ps)) pts))))
       = sum_list (map f (filter (\<lambda>pt. A pt \<and> (\<exists>p \<in> set ps. p_id p = pt_period_id pt \<and> B p)) pts))"
proof (induction pts)
  case Nil
  then show ?case by simp
next
  case (Cons pt pts)
  let ?m = "filter (\<lambda>p. p_id p = pt_period_id pt \<and> B p) ps"
  have one: "length ?m \<le> 1" using d by (rule filter_key_at_most_one)
  have here: "sum_list (map (\<lambda>(pt, p). f pt)
           (filter (\<lambda>(pt, p). A pt \<and> B p) (map (\<lambda>p. (pt, p)) (filter (\<lambda>p. p_id p = pt_period_id pt) ps))))
        = (if A pt then sum_list (map (\<lambda>_. f pt) ?m) else 0)"
    by (simp add: filter_map comp_def)
  have ex: "(?m = []) = (\<not> (\<exists>p \<in> set ps. p_id p = pt_period_id pt \<and> B p))"
    by (auto simp: filter_empty_conv)
  have here2: "sum_list (map (\<lambda>(pt, p). f pt)
           (filter (\<lambda>(pt, p). A pt \<and> B p) (map (\<lambda>p. (pt, p)) (filter (\<lambda>p. p_id p = pt_period_id pt) ps))))
        = (if A pt \<and> (\<exists>p \<in> set ps. p_id p = pt_period_id pt \<and> B p) then f pt else 0)"
    unfolding here sum_const_at_most_one [OF one, of "f pt"] ex by simp
  show ?case
    using Cons.IH here2 by auto
qed

lemma periodCondition_iff:
  "periodCondition p date =
     (p_number p = 0 \<or> (case p_end_date p of None \<Rightarrow> False | Some e \<Rightarrow> DATE e < DATE date))"
  by (simp add: periodCondition_def sql_lt_def split: option.splits)

lemma period_balance_totals:
  assumes d: "distinct (map p_id (tbl_period db))"
  shows "getPeriodAccountBalanceUntilDate db a dt fy =
           \<lparr> balance = sum_list (map (\<lambda>pt. pt_debit pt - pt_credit pt) (prior_period_totals db a dt fy)),
             credit = sum_list (map pt_credit (prior_period_totals db a dt fy)),
             debit = sum_list (map pt_debit (prior_period_totals db a dt fy)) \<rparr>"
proof -
  have sel: "(\<lambda>(pt, p). pt_account_id pt = a \<and> periodCondition p dt \<and> p_fiscal_year_id p = fy)
       = (\<lambda>(pt, p). pt_account_id pt = a \<and> (p_fiscal_year_id p = fy \<and> periodCondition p dt))"
    by auto
  have sums: "sum_list (map (\<lambda>(pt, p). f pt)
           (filter (\<lambda>(pt, p). pt_account_id pt = a \<and> periodCondition p dt \<and> p_fiscal_year_id p = fy)
              (period_total_JOIN_period db)))
       = sum_list (map f (prior_period_totals db a dt fy))" for f :: "period_total_row \<Rightarrow> real"
    unfolding sel period_total_JOIN_period_def prior_period_totals_def
    using join_sum [OF d, of f "\<lambda>pt. pt_account_id pt = a" "\<lambda>p. p_fiscal_year_id p = fy \<and> periodCondition p dt" "tbl_period_total db"]
    by (simp add: periodCondition_iff)
  show ?thesis
    by (simp add: getPeriodAccountBalanceUntilDate_def Let_def IFNULL_SUM_of sums)
qed

lemma in_period_filter:
  "filter (\<lambda>l. gl_account_id l = a \<and> sql_compare (if b then ''<='' else ''<'') (DATE (gl_trans_date l)) (DATE d) \<and> gl_period_id l = pid) ls
   = filter (\<lambda>l. gl_account_id l = a \<and> gl_period_id l = pid
                \<and> (if b then DATE (gl_trans_date l) \<le> DATE d else DATE (gl_trans_date l) < DATE d)) ls"
  by (rule filter_cong) (auto simp: sql_compare_def)

lemma computed_balance_totals:
  "getComputedAccountBalanceUntilDate db a d pid incl
     = totals_of (in_period_lines db a d pid (truthy incl))"
  using in_period_filter [of a "truthy incl" d pid "tbl_general_ledger db"]
  by (simp add: getComputedAccountBalanceUntilDate_def Let_def IFNULL_SUM_of totals_of_def
      in_period_lines_def)

lemma opening_balance_resolved:
  assumes "getFiscalYearForDate db d = Inr fy" and "getPeriodForDate db d = Inr pid"
  shows "getOpeningBalanceForDate db a d incl =
     (let prior = getPeriodAccountBalanceUntilDate db a d fy;
          running = getComputedAccountBalanceUntilDate db a d pid
                      (if incl = JUndefined then JBool True else incl)
      in Inr \<lparr> balance = toFixed 4 (balance prior + balance running),
               credit = toFixed 4 (credit prior + credit running),
               debit = toFixed 4 (debit prior + debit running) \<rparr>)"
  using assms by (simp add: getOpeningBalanceForDate_def Let_def)

lemma digits_small: "n < 10 \<Longrightarrow> digits n = [''0123456789'' ! n]"
  by (simp add: digits.simps)

lemma digits_large:
  "10 \<le> n \<Longrightarrow> digits n = digits (n div 10) @ [''0123456789'' ! (n mod 10)]"
  by (simp add: digits.simps)

lemma replicate_num: "replicate (numeral k) x = x # replicate (pred_numeral k) x"
  by (simp add: numeral_eq_Suc)

lemmas toFixed_eval =
  toFixed_def fixed_abs_def pad_left_def digits_small digits_large Let_def replicate_num

lemmas sql_eval =
  db_one_def DATE_def sql_le_def sql_ge_def sql_lt_def sql_compare_def SUM_of_def IFNULL_def
  periodCondition_def period_total_JOIN_period_def

subsection \<open>The prior-period component\<close>

text \<open>
  C7, as amended. When period identifiers are unique, the prior-period component of
  \<open>getOpeningBalanceForDate\<close> sums the period totals of the account within the resolved
  fiscal year over exactly the periods whose number is 0 or whose end date is strictly
  before the given date. In particular, when the date resolves to a fiscal year and to a
  period, the only such total of the account is (debit 100, credit 0) and the account has
  no ledger line in the period up to the date, the answer is balance 100.0000, credit
  0.0000, debit 100.0000.
\<close>


theorem prior_period_component:
  assumes uniq: "distinct (map p_id (tbl_period db))"
  shows "getPeriodAccountBalanceUntilDate db a d fy =
           \<lparr> balance = sum_list (map (\<lambda>pt. pt_debit pt - pt_credit pt)
                                 (prior_period_totals db a d fy)),
             credit = sum_list (map pt_credit (prior_period_totals db a d fy)),
             debit = sum_list (map pt_debit (prior_period_totals db a d fy)) \<rparr>
       \<and> (getFiscalYearForDate db d = Inr fy
            \<and> getPeriodForDate db d = Inr pid
            \<and> prior_period_totals db a d fy
                = [\<lparr> pt_account_id = a, pt_period_id = k, pt_debit = 100, pt_credit = 0 \<rparr>]
            \<and> in_period_lines db a d pid (incl = JUndefined \<or> truthy incl) = []
          \<longrightarrow> getOpeningBalanceForDate db a d incl =
                Inr \<lparr> balance = ''100.0000'', credit = ''0.0000'', debit = ''100.0000'' \<rparr>)"
proof (intro conjI impI)
  show prior: "getPeriodAccountBalanceUntilDate db a d fy =
           \<lparr> balance = sum_list (map (\<lambda>pt. pt_debit pt - pt_credit pt)
                                 (prior_period_totals db a d fy)),
             credit = sum_list (map pt_credit (prior_period_totals db a d fy)),
             debit = sum_list (map pt_debit (prior_period_totals db a d fy)) \<rparr>"
    using uniq by (rule period_balance_totals)
  assume h: "getFiscalYearForDate db d = Inr fy
            \<and> getPeriodForDate db d = Inr pid
            \<and> prior_period_totals db a d fy
                = [\<lparr> pt_account_id = a, pt_period_id = k, pt_debit = 100, pt_credit = 0 \<rparr>]
            \<and> in_period_lines db a d pid (incl = JUndefined \<or> truthy incl) = []"
  have t: "truthy (if incl = JUndefined then JBool True else incl)
             = (incl = JUndefined \<or> truthy incl)"
    by simp
  have running: "getComputedAccountBalanceUntilDate db a d pid
                   (if incl = JUndefined then JBool True else incl)
                 = \<lparr> balance = 0, credit = 0, debit = 0 \<rparr>"
    using h unfolding computed_balance_totals t by (simp add: totals_of_def)
  have fixed: "toFixed 4 100 = ''100.0000''" "toFixed 4 0 = ''0.0000''"
    by (simp_all add: toFixed_eval)
  from h have "getOpeningBalanceForDate db a d incl =
     (let prior = getPeriodAccountBalanceUntilDate db a d fy;
          running = getComputedAccountBalanceUntilDate db a d pid
                      (if incl = JUndefined then JBool True else incl)
      in Inr \<lparr> balance = toFixed 4 (balance prior + balance running),
               credit = toFixed 4 (credit prior + credit running),
               debit = toFixed 4 (debit prior + debit running) \<rparr>)"
    by (intro opening_balance_resolved) simp_all
  then show "getOpeningBalanceForDate db a d incl =
                Inr \<lparr> balance = ''100.0000'', credit = ''0.0000'', debit = ''100.0000'' \<rparr>"
    using h unfolding running prior by (simp add: Let_def fixed)
qed

theorem prior_period_component_witness:
  "distinct (map p_id (tbl_period db7))
   \<and> getPeriodAccountBalanceUntilDate db7 7 864000 1
       = \<lparr> balance = 100, credit = 0, debit = 100 \<rparr>
   \<and> getOpeningBalanceForDate db7 7 864000 JUndefined =
       Inr \<lparr> balance = ''100.0000'', credit = ''0.0000'', debit = ''100.0000'' \<rparr>"
proof -
  have u: "distinct (map p_id (tbl_period db7))"
    by (simp add: db7_def)
  have h: "getFiscalYearForDate db7 864000 = Inr 1
            \<and> getPeriodForDate db7 864000 = Inr 11
            \<and> prior_period_totals db7 7 864000 1
                = [\<lparr> pt_account_id = 7, pt_period_id = 10, pt_debit = 100, pt_credit = 0 \<rparr>]
            \<and> in_period_lines db7 7 864000 11 (JUndefined = JUndefined \<or> truthy JUndefined) = []"
    by (simp add: db7_def getFiscalYearForDate_def getPeriodForDate_def
        prior_period_totals_def in_period_lines_def sql_eval)
  show ?thesis
    using u h prior_period_component [OF u, of 7 864000 1 11 10 JUndefined]
    by (simp add: prior_period_totals_def db7_def sql_eval)
qed

text \<open>
  The claim as first stated fails in the ledger whose fiscal year has period 0 and no
  other period, with the opening total (debit 100, credit 0) of account 7 as its only
  aggregate and no ledger line. The date resolves to the fiscal year and the
  prior-period component has balance 100, but period 0 carries no dates, so the date
  resolves to no period and the opening balance is not computed: the call fails with
  \<open>NotFound\<close>.
\<close>

theorem opening_balance_counterexample:
  "map (\<lambda>pt. (pt_period_id pt, pt_debit pt, pt_credit pt))
       (filter (\<lambda>pt. pt_account_id pt = 7) (tbl_period_total db_period0)) = [(10, 100, 0)]
   \<and> map p_number (tbl_period db_period0) = [0]
   \<and> getFiscalYearForDate db_period0 864000 = Inr 1
   \<and> balance (getPeriodAccountBalanceUntilDate db_period0 7 864000 1) = 100
   \<and> getPeriodForDate db_period0 864000 = Inl NotFound
   \<and> getOpeningBalanceForDate db_period0 7 864000 (JBool True) = Inl NotFound"
  by (simp add: db_period0_def getOpeningBalanceForDate_def getFiscalYearForDate_def
      getPeriodForDate_def getPeriodAccountBalanceUntilDate_def sql_eval)

subsection \<open>The in-period component\<close>

text \<open>
  C8. The in-period component sums the ledger lines of the account in the period whose
  transaction day is compared with the day of the given date by \<open>\<le>\<close> when
  \<open>includeMaxDate\<close> is true and by \<open><\<close> when it is false; within
  \<open>getOpeningBalanceForDate\<close> the period is the one the date resolves to, and a missing
  argument counts as true.
\<close>

theorem in_period_component_date_operator:
  "getComputedAccountBalanceUntilDate db a d pid incl
     = totals_of (in_period_lines db a d pid (truthy incl))
   \<and> (getFiscalYearForDate db d = Inr fy \<and> getPeriodForDate db d = Inr pid
      \<longrightarrow> getOpeningBalanceForDate db a d incl =
         (let prior = getPeriodAccountBalanceUntilDate db a d fy;
              running = totals_of (in_period_lines db a d pid (incl = JUndefined \<or> truthy incl))
          in Inr \<lparr> balance = toFixed 4 (balance prior + balance running),
                   credit = toFixed 4 (credit prior + credit running),
                   debit = toFixed 4 (debit prior + debit running) \<rparr>))"
proof (intro conjI impI)
  show "getComputedAccountBalanceUntilDate db a d pid incl
     = totals_of (in_period_lines db a d pid (truthy incl))"
    by (rule computed_balance_totals)
  assume h: "getFiscalYearForDate db d = Inr fy \<and> getPeriodForDate db d = Inr pid"
  have t: "truthy (if incl = JUndefined then JBool True else incl)
             = (incl = JUndefined \<or> truthy incl)"
    by simp
  from h have "getOpeningBalanceForDate db a d incl =
     (let prior = getPeriodAccountBalanceUntilDate db a d fy;
          running = getComputedAccountBalanceUntilDate db a d pid
                      (if incl = JUndefined then JBool True else incl)
      in Inr \<lparr> balance = toFixed 4 (balance prior + balance running),
               credit = toFixed 4 (credit prior + credit running),
               debit = toFixed 4 (debit prior + debit running) \<rparr>)"
    by (intro opening_balance_resolved) simp_all
  then show "getOpeningBalanceForDate db a d incl =
         (let prior = getPeriodAccountBalanceUntilDate db a d fy;
              running = totals_of (in_period_lines db a d pid (incl = JUndefined \<or> truthy incl))
          in Inr \<lparr> balance = toFixed 4 (balance prior + balance running),
                   credit = toFixed 4 (credit prior + credit running),
                   debit = toFixed 4 (debit prior + debit running) \<rparr>)"
    unfolding computed_balance_totals t .
qed

theorem in_period_component_date_operator_witness:
  "getComputedAccountBalanceUntilDate db8 7 900000 11 (JBool True)
     = \<lparr> balance = 8, credit = 0, debit = 13 \<rparr>
   \<and> getComputedAccountBalanceUntilDate db8 7 900000 11 (JBool False)
     = \<lparr> balance = 3, credit = 0, debit = 3 \<rparr>
   \<and> getFiscalYearForDate db8 900000 = Inr 1 \<and> getPeriodForDate db8 900000 = Inr 11
   \<and> getOpeningBalanceForDate db8 7 900000 (JBool False)
     = Inr \<lparr> balance = ''3.0000'', credit = ''0.0000'', debit = ''3.0000'' \<rparr>"
proof -
  have h: "getFiscalYearForDate db8 900000 = Inr 1 \<and> getPeriodForDate db8 900000 = Inr 11"
    by (simp add: db8_def getFiscalYearForDate_def getPeriodForDate_def sql_eval)
  have l1: "totals_of (in_period_lines db8 7 900000 11 True)
            = \<lparr> balance = 8, credit = 0, debit = 13 \<rparr>"
    by (simp add: db8_def in_period_lines_def totals_of_def sql_eval)
  have l2: "totals_of (in_period_lines db8 7 900000 11 False)
            = \<lparr> balance = 3, credit = 0, debit = 3 \<rparr>"
    by (simp add: db8_def in_period_lines_def totals_of_def sql_eval)
  have p: "getPeriodAccountBalanceUntilDate db8 7 900000 1 = \<lparr> balance = 0, credit = 0, debit = 0 \<rparr>"
    by (simp add: db8_def getPeriodAccountBalanceUntilDate_def sql_eval)
  have fixed: "toFixed 4 3 = ''3.0000''" "toFixed 4 0 = ''0.0000''"
    by (simp_all add: toFixed_eval)
  have c1: "getComputedAccountBalanceUntilDate db8 7 900000 11 (JBool True)
     = \<lparr> balance = 8, credit = 0, debit = 13 \<rparr>"
    using in_period_component_date_operator [of db8 7 900000 11 "JBool True" 1]
    by (simp add: l1)
  have c2: "getComputedAccountBalanceUntilDate db8 7 900000 11 (JBool False)
     = \<lparr> balance = 3, credit = 0, debit = 3 \<rparr>"
    using in_period_component_date_operator [of db8 7 900000 11 "JBool False" 1]
    by (simp add: l2)
  have c3: "getOpeningBalanceForDate db8 7 900000 (JBool False)
     = Inr \<lparr> balance = ''3.0000'', credit = ''0.0000'', debit = ''3.0000'' \<rparr>"
    using h in_period_component_date_operator [of db8 7 900000 11 "JBool False" 1]
    by (simp add: l2 p fixed)
  show ?thesis
    using h c1 c2 c3 by simp
qed

subsection \<open>Native and equivalent amounts\<close>

text \<open>
  C10. When period identifiers are unique, the prior-period component has as its balance
  the sum of debit minus credit over the period totals that count before the date, and
  as its debit and credit the sums of their debits and credits: native amounts
  throughout. The in-period component has as its balance the sum of the equivalent
  amounts \<open>debit_equiv - credit_equiv\<close> over the ledger lines of the period up to the date,
  while its debit and credit sum the native \<open>debit\<close> and \<open>credit\<close> of those lines. When the
  date resolves, \<open>getOpeningBalanceForDate\<close> answers with the sums of the two components,
  field by field, to four decimals. The balance returned therefore need not be the
  returned debit minus the returned credit: in the fourth ledger above the answer is
  balance 77.0000 with debit 130.0000 and credit 49.0000.
\<close>

theorem balance_components_mix_currencies:
  assumes uniq: "distinct (map p_id (tbl_period db))"
  shows "getPeriodAccountBalanceUntilDate db a d fy =
           \<lparr> balance = sum_list (map (\<lambda>pt. pt_debit pt - pt_credit pt)
                                 (prior_period_totals db a d fy)),
             credit = sum_list (map pt_credit (prior_period_totals db a d fy)),
             debit = sum_list (map pt_debit (prior_period_totals db a d fy)) \<rparr>
       \<and> getComputedAccountBalanceUntilDate db a d pid incl =
           \<lparr> balance = sum_list (map (\<lambda>l. gl_debit_equiv l - gl_credit_equiv l)
                                 (in_period_lines db a d pid (truthy incl))),
             credit = sum_list (map gl_credit (in_period_lines db a d pid (truthy incl))),
             debit = sum_list (map gl_debit (in_period_lines db a d pid (truthy incl))) \<rparr>
       \<and> (getFiscalYearForDate db d = Inr fy \<and> getPeriodForDate db d = Inr pid \<longrightarrow>
            getOpeningBalanceForDate db a d incl =
              Inr \<lparr> balance =
                      toFixed 4
                        (sum_list (map (\<lambda>pt. pt_debit pt - pt_credit pt)
                                       (prior_period_totals db a d fy))
                         + sum_list (map (\<lambda>l. gl_debit_equiv l - gl_credit_equiv l)
                                         (in_period_lines db a d pid
                                            (incl = JUndefined \<or> truthy incl)))),
                    credit =
                      toFixed 4
                        (sum_list (map pt_credit (prior_period_totals db a d fy))
                         + sum_list (map gl_credit
                                         (in_period_lines db a d pid
                                            (incl = JUndefined \<or> truthy incl)))),
                    debit =
                      toFixed 4
                        (sum_list (map pt_debit (prior_period_totals db a d fy))
                         + sum_list (map gl_debit
                                         (in_period_lines db a d pid
                                            (incl = JUndefined \<or> truthy incl)))) \<rparr>)"
proof (intro conjI impI)
  show prior: "getPeriodAccountBalanceUntilDate db a d fy =
           \<lparr> balance = sum_list (map (\<lambda>pt. pt_debit pt - pt_credit pt)
                                 (prior_period_totals db a d fy)),
             credit = sum_list (map pt_credit (prior_period_totals db a d fy)),
             debit = sum_list (map pt_debit (prior_period_totals db a d fy)) \<rparr>"
    using uniq by (rule period_balance_totals)
  show running: "getComputedAccountBalanceUntilDate db a d pid incl =
           \<lparr> balance = sum_list (map (\<lambda>l. gl_debit_equiv l - gl_credit_equiv l)
                                 (in_period_lines db a d pid (truthy incl))),
             credit = sum_list (map gl_credit (in_period_lines db a d pid (truthy incl))),
             debit = sum_list (map gl_debit (in_period_lines db a d pid (truthy incl))) \<rparr>"
      for incl
    by (simp add: computed_balance_totals totals_of_def)
  assume h: "getFiscalYearForDate db d = Inr fy \<and> getPeriodForDate db d = Inr pid"
  have t: "truthy (if incl = JUndefined then JBool True else incl)
             = (incl = JUndefined \<or> truthy incl)"
    by simp
  show "getOpeningBalanceForDate db a d incl =
              Inr \<lparr> balance =
                      toFixed 4
                        (sum_list (map (\<lambda>pt. pt_debit pt - pt_credit pt)
                                       (prior_period_totals db a d fy))
                         + sum_list (map (\<lambda>l. gl_debit_equiv l - gl_credit_equiv l)
                                         (in_period_lines db a d pid
                                            (incl = JUndefined \<or> truthy incl)))),
                    credit =
                      toFixed 4
                        (sum_list (map pt_credit (prior_period_totals db a d fy))
                         + sum_list (map gl_credit
                                         (in_period_lines db a d pid
                                            (incl = JUndefined \<or> truthy incl)))),
                    debit =
                      toFixed 4
                        (sum_list (map pt_debit (prior_period_totals db a d fy))
                         + sum_list (map gl_debit
                                         (in_period_lines db a d pid
                                            (incl = JUndefined \<or> truthy incl)))) \<rparr>"
    using h opening_balance_resolved [of db d fy pid a incl]
    by (simp add: Let_def prior running [of "if incl = JUndefined then JBool True else incl"] t)
qed

theorem balance_components_mix_currencies_witness:
  "distinct (map p_id (tbl_period db10))
   \<and> getPeriodAccountBalanceUntilDate db10 7 2800000 1
       = \<lparr> balance = 75, credit = 45, debit = 120 \<rparr>
   \<and> getComputedAccountBalanceUntilDate db10 7 2800000 12 JUndefined
       = \<lparr> balance = 5, credit = 0, debit = 10 \<rparr>
   \<and> getComputedAccountBalanceUntilDate db10 7 2800000 12 (JBool True)
       = \<lparr> balance = 2, credit = 4, debit = 10 \<rparr>
   \<and> getOpeningBalanceForDate db10 7 2800000 JUndefined
       = Inr \<lparr> balance = ''77.0000'', credit = ''49.0000'', debit = ''130.0000'' \<rparr>"
proof -
  have u: "distinct (map p_id (tbl_period db10))"
    by (simp add: db10_def)
  have r: "getFiscalYearForDate db10 2800000 = Inr 1 \<and> getPeriodForDate db10 2800000 = Inr 12"
    by (simp add: db10_def getFiscalYearForDate_def getPeriodForDate_def sql_eval)
  have p: "prior_period_totals db10 7 2800000 1
           = [\<lparr> pt_account_id = 7, pt_period_id = 10, pt_debit = 100, pt_credit = 40 \<rparr>,
              \<lparr> pt_account_id = 7, pt_period_id = 11, pt_debit = 20, pt_credit = 5 \<rparr>]"
    by (simp add: db10_def prior_period_totals_def sql_eval)
  have l: "in_period_lines db10 7 2800000 12 True = tbl_general_ledger db10"
    "in_period_lines db10 7 2800000 12 False = [hd (tbl_general_ledger db10)]"
    by (simp_all add: db10_def in_period_lines_def sql_eval)
  have g: "tbl_general_ledger db10 =
              [\<lparr> gl_account_id = 7, gl_period_id = 12, gl_trans_date = 2700000,
                 gl_debit = 10, gl_credit = 0, gl_debit_equiv = 5, gl_credit_equiv = 0 \<rparr>,
               \<lparr> gl_account_id = 7, gl_period_id = 12, gl_trans_date = 2800000,
                 gl_debit = 0, gl_credit = 4, gl_debit_equiv = 0, gl_credit_equiv = 3 \<rparr>]"
    by (simp add: db10_def)
  have fixed: "toFixed 4 77 = ''77.0000''" "toFixed 4 49 = ''49.0000''"
    "toFixed 4 130 = ''130.0000''"
    by (simp_all add: toFixed_eval)
  note T = balance_components_mix_currencies [OF u, of 7 2800000 1 12]
  have 1: "getPeriodAccountBalanceUntilDate db10 7 2800000 1
       = \<lparr> balance = 75, credit = 45, debit = 120 \<rparr>"
    using T [of JUndefined, THEN conjunct1] by (simp add: p)
  have 2: "getComputedAccountBalanceUntilDate db10 7 2800000 12 JUndefined
       = \<lparr> balance = 5, credit = 0, debit = 10 \<rparr>"
    using T [of JUndefined, THEN conjunct2, THEN conjunct1] by (simp add: l g)
  have 3: "getComputedAccountBalanceUntilDate db10 7 2800000 12 (JBool True)
       = \<lparr> balance = 2, credit = 4, debit = 10 \<rparr>"
    using T [of "JBool True", THEN conjunct2, THEN conjunct1] by (simp add: l g)
  have 4: "getOpeningBalanceForDate db10 7 2800000 JUndefined
       = Inr \<lparr> balance = ''77.0000'', credit = ''49.0000'', debit = ''130.0000'' \<rparr>"
    using T [of JUndefined, THEN conjunct2, THEN conjunct2] r by (simp add: p l g fixed)
  show ?thesis using u 1 2 3 4 by simp
qed

section \<open>Properties of the journal\<close>

subsection \<open>Auxiliary facts about the row transform\<close>

lemma get_upd [simp]:
  "get (r(k \<mapsto> v)) k' = (if k' = k then v else get r k')"
  "get (r(k := None)) k' = (if k' = k then JUndefined else get r k')"
  "get Map.empty k' = JUndefined"
  by (simp_all add: get_def)

lemma field_of_inj: "field_of a = field_of b \<longleftrightarrow> a = b"
  by (cases a; cases b; simp add: field_of_def)

lemma assign_split:
  "assign asg results row =
     (case assign asg results Map.empty of
        Inl e \<Rightarrow> Inl e
      | Inr r \<Rightarrow> Inr (row(field_of asg \<mapsto> get r (field_of asg))))"
  by (cases asg) (auto simp: field_of_def Let_def split: list.splits)

lemma settle_one_outcome:
  "settle_one en q rows =
     (case lookup_outcome en q of
        Inl e \<Rightarrow> Inl e
      | Inr v \<Rightarrow> Inr (rows[fst (slot q) := (rows ! fst (slot q))(field_of (snd (slot q)) \<mapsto> v)]))"
proof -
  obtain request params asg i where q: "q = (request, params, asg, i)"
    by (cases q) auto
  show ?thesis
    unfolding q
    by (simp add: lookup_outcome_def slot_def assign_split [of asg _ "rows ! i"]
        split: sum.splits)
qed

lemma settle_Inr:
  "settle en qs rows = Inr out \<longleftrightarrow>
     (\<forall>q \<in> set qs. \<exists>v. lookup_outcome en q = Inr v) \<and> out = fold (put_answer en) qs rows"
proof (induction qs arbitrary: rows)
  case Nil
  then show ?case by auto
next
  case (Cons q qs)
  show ?case
  proof (cases "lookup_outcome en q")
    case (Inl e)
    then show ?thesis by (auto simp: settle_one_outcome)
  next
    case (Inr v)
    then show ?thesis
      using Cons.IH by (simp add: settle_one_outcome put_answer_def)
  qed
qed

lemma settle_Inl:
  "settle en qs rows = Inl e \<Longrightarrow> \<exists>q \<in> set qs. lookup_outcome en q = Inl e"
proof (induction qs arbitrary: rows)
  case Nil
  then show ?case by simp
next
  case (Cons q qs)
  then show ?case
    by (cases "lookup_outcome en q") (auto simp: settle_one_outcome)
qed

lemma length_put_answer [simp]: "length (put_answer en q rows) = length rows"
  by (simp add: put_answer_def split: sum.splits)

lemma length_fold_put_answer [simp]: "length (fold (put_answer en) qs rows) = length rows"
  by (induction qs arbitrary: rows) simp_all

lemma list_update_outside: "\<not> i < length xs \<Longrightarrow> xs[i := x] = xs"
  by (simp add: list_update_beyond)

lemma put_answer_commute:
  assumes "slot q1 \<noteq> slot q2"
  shows "put_answer en q1 (put_answer en q2 rows) = put_answer en q2 (put_answer en q1 rows)"
proof -
  obtain i1 a1 where s1: "slot q1 = (i1, a1)" by (cases "slot q1") auto
  obtain i2 a2 where s2: "slot q2 = (i2, a2)" by (cases "slot q2") auto
  show ?thesis
  proof (cases "i1 = i2")
    case True
    with assms s1 s2 have "field_of a1 \<noteq> field_of a2" by (simp add: field_of_inj)
    then show ?thesis
      using True s1 s2
      by (cases "i1 < length rows")
         (auto simp: put_answer_def fun_upd_twist list_update_outside split: sum.splits)
  next
    case False
    then show ?thesis
      using s1 s2 by (auto simp: put_answer_def list_update_swap split: sum.splits)
  qed
qed

lemma fold_put_answer_permuted:
  assumes "mset xs = mset ys" and "distinct (map slot xs)"
  shows "fold (put_answer en) xs = fold (put_answer en) ys"
proof (rule fold_multiset_equiv)
  show "mset xs = mset ys" by fact
  fix x y assume "x \<in> set xs" "y \<in> set xs"
  show "put_answer en x \<circ> put_answer en y = put_answer en y \<circ> put_answer en x"
  proof (cases "x = y")
    case True
    then show ?thesis by simp
  next
    case False
    with \<open>x \<in> set xs\<close> \<open>y \<in> set xs\<close> assms(2) have "slot x \<noteq> slot y"
      by (auto simp: distinct_map inj_on_def)
    then show ?thesis
      by (auto simp: fun_eq_iff put_answer_commute)
  qed
qed

lemma mset_arrival [simp]: "mset (arrival sched xs) = mset xs"
proof (induction xs)
  case Nil
  then show ?case by simp
next
  case (Cons x xs)
  let ?ys = "arrival sched xs"
  let ?k = "sched (length xs) mod Suc (length xs)"
  have "mset (take ?k ?ys) + mset (drop ?k ?ys) = mset ?ys"
    by (metis append_take_drop_id mset_append)
  then show ?case using Cons.IH by (simp add: Let_def)
qed

lemma set_arrival [simp]: "set (arrival sched xs) = set xs"
  using mset_arrival [of sched xs] by (metis set_mset_mset)

lemma fold_put_answer_untouched:
  assumes "\<forall>q \<in> set qs. slot q \<noteq> (i, a)"
  shows "(fold (put_answer en) qs rows ! i) (field_of a) = (rows ! i) (field_of a)"
  using assms
proof (induction qs arbitrary: rows)
  case Nil
  then show ?case by simp
next
  case (Cons q qs)
  have "(put_answer en q rows ! i) (field_of a) = (rows ! i) (field_of a)"
  proof (cases "fst (slot q) = i")
    case True
    with Cons.prems have "field_of (snd (slot q)) \<noteq> field_of a"
      by (cases "slot q") (auto simp: field_of_inj)
    with True show ?thesis
      by (cases "i < length rows")
         (auto simp: put_answer_def list_update_outside split: sum.splits)
  next
    case False
    then show ?thesis by (auto simp: put_answer_def split: sum.splits)
  qed
  with Cons show ?case by simp
qed

lemma fold_put_answer_other_key:
  assumes "\<forall>a. k \<noteq> field_of a"
  shows "(fold (put_answer en) qs rows ! i) k = (rows ! i) k"
proof (induction qs arbitrary: rows)
  case Nil
  then show ?case by simp
next
  case (Cons q qs)
  have "(put_answer en q rows ! i) k = (rows ! i) k"
    using assms
    by (cases "fst (slot q) = i"; cases "i < length rows")
       (auto simp: put_answer_def list_update_outside split: sum.splits)
  with Cons show ?case by simp
qed

lemma fold_put_answer_written:
  assumes "distinct (map slot qs)" and "q \<in> set qs" and "lookup_outcome en q = Inr v"
    and "fst (slot q) < length rows"
  shows "(fold (put_answer en) qs rows ! fst (slot q)) (field_of (snd (slot q))) = Some v"
  using assms
proof (induction qs arbitrary: rows)
  case Nil
  then show ?case by simp
next
  case (Cons x xs)
  show ?case
  proof (cases "x = q")
    case True
    have "\<forall>y \<in> set xs. slot y \<noteq> (fst (slot q), snd (slot q))"
      using Cons.prems(1) True by (auto simp: image_iff)
    then have "(fold (put_answer en) xs (put_answer en q rows) ! fst (slot q)) (field_of (snd (slot q)))
               = (put_answer en q rows ! fst (slot q)) (field_of (snd (slot q)))"
      by (rule fold_put_answer_untouched)
    also have "\<dots> = Some v"
      using Cons.prems(3,4) by (simp add: put_answer_def)
    finally show ?thesis using True by simp
  next
    case False
    with Cons.prems have "q \<in> set xs" by simp
    then show ?thesis
      using Cons.IH [of "put_answer en x rows"] Cons.prems by simp
  qed
qed

lemma discard_other: "k' \<noteq> k \<Longrightarrow> discard k r k' = r k'"
  by (simp add: discard_def)

lemma get_discard_other: "k' \<noteq> k \<Longrightarrow> get (discard k r) k' = get r k'"
  by (simp add: discard_def)

lemma schedule_row_eq:
  "schedule_row en nr pid td cid fy i row0 =
     (if nr \<and> \<not> truthy (get row0 ''account_number'')
      then Inl (BadRequest EDIT_INVALID_ACCOUNT)
      else Inr (edited_row en fy row0, expected_requests en pid td cid i row0))"
  unfolding schedule_row_def Let_def discard_def [symmetric]
  by (simp add: edited_row_def expected_requests_def stamp_def get_discard_other Let_def)

lemma edited_row_date:
  assumes "truthy (get row ''trans_date'')"
  shows "edited_row en fy row ''trans_date''
           = Some (new_Date (parse_date en) (get row ''trans_date''))"
    and "edited_row en fy row ''fiscal_year_id'' = Some (get fy ''fiscal_year_id'')"
    and "edited_row en fy row ''period_id'' = Some (get fy ''id'')"
  using assms by (simp_all add: edited_row_def stamp_def get_discard_other)

lemma edited_row_field: "edited_row en fy row (field_of a) = row (field_of a)"
  by (cases a) (simp_all add: edited_row_def stamp_def field_of_def discard_other)

lemma schedule_rows_eq:
  "schedule_rows en nr pid td cid fy i rows =
     (if nr \<and> (\<exists>r \<in> set rows. \<not> truthy (get r ''account_number''))
      then Inl (BadRequest EDIT_INVALID_ACCOUNT)
      else Inr (map (edited_row en fy) rows, requests_from en pid td cid i rows))"
  by (induction rows arbitrary: i) (auto simp: schedule_row_eq)

lemma slot_expected_requests:
  "q \<in> set (expected_requests en pid td cid i r) \<Longrightarrow> fst (slot q) = i"
  by (auto simp: expected_requests_def Let_def slot_def split: if_splits)

lemma distinct_slot_expected_requests:
  "distinct (map slot (expected_requests en pid td cid i r))"
  by (simp add: expected_requests_def Let_def slot_def)

lemma set_requests_from:
  "q \<in> set (requests_from en pid td cid i rows) \<longleftrightarrow>
     (\<exists>j < length rows. q \<in> set (expected_requests en pid td cid (i + j) (rows ! j)))"
proof (induction rows arbitrary: i)
  case Nil
  then show ?case by simp
next
  case (Cons r rs)
  show ?case
  proof
    assume "q \<in> set (requests_from en pid td cid i (r # rs))"
    then consider "q \<in> set (expected_requests en pid td cid i r)"
      | "q \<in> set (requests_from en pid td cid (Suc i) rs)" by auto
    then show "\<exists>j < length (r # rs). q \<in> set (expected_requests en pid td cid (i + j) ((r # rs) ! j))"
    proof cases
      case 1
      then show ?thesis by (intro exI [of _ 0]) simp
    next
      case 2
      then obtain j where "j < length rs"
        "q \<in> set (expected_requests en pid td cid (Suc i + j) (rs ! j))"
        using Cons.IH by blast
      then show ?thesis by (intro exI [of _ "Suc j"]) simp
    qed
  next
    assume "\<exists>j < length (r # rs). q \<in> set (expected_requests en pid td cid (i + j) ((r # rs) ! j))"
    then obtain j where j: "j < length (r # rs)"
      "q \<in> set (expected_requests en pid td cid (i + j) ((r # rs) ! j))" by blast
    show "q \<in> set (requests_from en pid td cid i (r # rs))"
    proof (cases j)
      case 0
      with j show ?thesis by simp
    next
      case (Suc j')
      with j have "j' < length rs"
        "q \<in> set (expected_requests en pid td cid (Suc i + j') (rs ! j'))" by simp_all
      then show ?thesis using Cons.IH by auto
    qed
  qed
qed

lemma slot_requests_from:
  "q \<in> set (requests_from en pid td cid i rows) \<Longrightarrow>
     i \<le> fst (slot q) \<and> fst (slot q) < i + length rows"
  by (auto simp: set_requests_from dest!: slot_expected_requests)

lemma distinct_slot_requests_from:
  "distinct (map slot (requests_from en pid td cid i rows))"
proof (induction rows arbitrary: i)
  case Nil
  then show ?case by simp
next
  case (Cons r rs)
  have "slot ` set (expected_requests en pid td cid i r)
          \<inter> slot ` set (requests_from en pid td cid (Suc i) rs) = {}"
  proof -
    have "slot q \<noteq> slot q'"
      if "q \<in> set (expected_requests en pid td cid i r)"
        and "q' \<in> set (requests_from en pid td cid (Suc i) rs)" for q q'
      using slot_expected_requests [OF that(1)] slot_requests_from [OF that(2)]
      by auto
    then show ?thesis by blast
  qed
  then show ?case
    using Cons.IH distinct_slot_expected_requests by simp
qed

lemma transformColumns_Inr:
  "transformColumns en sched rows nr (t0 # ts) fy = Inr out \<longleftrightarrow>
     \<not> (nr \<and> (\<exists>r \<in> set rows. \<not> truthy (get r ''account_number'')))
     \<and> (\<forall>q \<in> set (requests_from en (get t0 ''project_id'') (get t0 ''trans_date'')
                      (get t0 ''currency_id'') 0 rows).
           \<exists>v. lookup_outcome en q = Inr v)
     \<and> out = fold (put_answer en)
                (requests_from en (get t0 ''project_id'') (get t0 ''trans_date'')
                   (get t0 ''currency_id'') 0 rows)
                (map (edited_row en fy) rows)"
proof -
  let ?reqs = "requests_from en (get t0 ''project_id'') (get t0 ''trans_date'')
                 (get t0 ''currency_id'') 0 rows"
  have "fold (put_answer en) (arrival sched ?reqs) = fold (put_answer en) ?reqs"
    by (rule fold_put_answer_permuted [symmetric])
       (simp_all add: distinct_slot_requests_from)
  then show ?thesis
    by (auto simp: transformColumns_def Let_def schedule_rows_eq settle_Inr)
qed

lemma transformColumns_Inl:
  assumes "transformColumns en sched rows nr (t0 # ts) fy = Inl e"
  shows "(nr \<and> (\<exists>r \<in> set rows. \<not> truthy (get r ''account_number''))
          \<and> e = BadRequest EDIT_INVALID_ACCOUNT)
       \<or> (\<exists>q \<in> set (requests_from en (get t0 ''project_id'') (get t0 ''trans_date'')
                      (get t0 ''currency_id'') 0 rows). lookup_outcome en q = Inl e)"
  using assms settle_Inl [of en "arrival sched (requests_from en (get t0 ''project_id'')
     (get t0 ''trans_date'') (get t0 ''currency_id'') 0 rows)" "map (edited_row en fy) rows" e]
  by (auto simp: transformColumns_def Let_def schedule_rows_eq split: if_splits)

lemma transformColumns_answer:
  assumes T: "transformColumns en sched rows nr (t0 # ts) fy = Inr out"
    and i: "i < length rows"
    and q: "q \<in> set (expected_requests en (get t0 ''project_id'') (get t0 ''trans_date'')
                 (get t0 ''currency_id'') i (rows ! i))"
  shows "\<exists>v. lookup_outcome en q = Inr v \<and> (out ! i) (field_of (snd (slot q))) = Some v"
proof -
  let ?reqs = "requests_from en (get t0 ''project_id'') (get t0 ''trans_date'')
                 (get t0 ''currency_id'') 0 rows"
  from i q have mem: "q \<in> set ?reqs"
    by (auto simp: set_requests_from)
  from q have s: "fst (slot q) = i" by (rule slot_expected_requests)
  from T mem obtain v where v: "lookup_outcome en q = Inr v"
    by (auto simp: transformColumns_Inr)
  from T have out: "out = fold (put_answer en) ?reqs (map (edited_row en fy) rows)"
    by (simp add: transformColumns_Inr)
  have "(out ! fst (slot q)) (field_of (snd (slot q))) = Some v"
    unfolding out
    by (rule fold_put_answer_written) (use mem v s i in \<open>simp_all add: distinct_slot_requests_from\<close>)
  with v s show ?thesis by auto
qed

lemma transformColumns_other_key:
  assumes T: "transformColumns en sched rows nr (t0 # ts) fy = Inr out"
    and i: "i < length rows"
    and k: "\<forall>a. k \<noteq> field_of a"
  shows "(out ! i) k = edited_row en fy (rows ! i) k"
  using T i fold_put_answer_other_key [OF k, of en _ "map (edited_row en fy) rows" i]
  by (simp add: transformColumns_Inr)

lemma transformColumns_length:
  assumes "transformColumns en sched rows nr tx fy = Inr out"
  shows "length out = length rows"
proof (cases tx)
  case Nil
  with assms show ?thesis by (simp add: transformColumns_def)
next
  case (Cons t0 ts)
  with assms show ?thesis by (simp add: transformColumns_Inr)
qed

subsection \<open>Auxiliary facts about the handler\<close>

lemma lookupTransaction_nonempty:
  "lookupTransaction st u = Inr tx \<Longrightarrow> tx \<noteq> []"
  by (auto simp: lookupTransaction_def Let_def split: if_splits)

lemma editTransaction_rejected:
  "buildTransaction en st rq = Inl e \<Longrightarrow> editTransaction en st rq = (Inl e, st)"
  by (simp add: editTransaction_def)

lemma buildTransaction_posted:
  assumes "lookupTransaction st (record_uuid rq) = Inr (t0 # ts)"
    and "truthy (get t0 ''posted'')"
  shows "buildTransaction en st rq = Inl (BadRequest TRANSACTION_ALREADY_POSTED)"
  using assms by (simp add: buildTransaction_def Let_def)

lemma buildTransaction_too_few:
  assumes "lookupTransaction st (record_uuid rq) = Inr (t0 # ts)"
    and "\<not> truthy (get t0 ''posted'')"
    and "(added rq = [] \<and> length (removed rq) \<ge> Suc (length ts))
         \<or> int (length (added rq)) - int (length (removed rq)) + int (Suc (length ts)) = 1"
  shows "buildTransaction en st rq = Inl (BadRequest TRANSACTION_MUST_CONTAIN_ROWS)"
  using assms by (auto simp add: buildTransaction_def Let_def)

lemma buildTransaction_proceeds:
  assumes "lookupTransaction st (record_uuid rq) = Inr (t0 # ts)"
    and "\<not> truthy (get t0 ''posted'')"
    and "\<not> (added rq = [] \<and> length (removed rq) \<ge> Suc (length ts))"
    and "int (length (added rq)) - int (length (removed rq)) + int (Suc (length ts)) \<noteq> 1"
    and "lookupFiscalYearByDate en (getTransactionDate (Some (changed rq)) (t0 # ts)) = Inr fy"
    and "\<not> truthy (get fy ''locked'')"
  shows "buildTransaction en st rq =
     (case transformColumns en (arrival_added en) (added rq) True (t0 # ts) fy of
        Inl e \<Rightarrow> Inl e
      | Inr inserted \<Rightarrow>
          (case transformColumns en (arrival_changed en) (map snd (changed rq)) False
                  (t0 # ts) fy of
             Inl e \<Rightarrow> Inl e
           | Inr updated \<Rightarrow>
               Inr (map (\<lambda>row. REMOVE_JOURNAL_ROW (bid (get row ''uuid''))) (removed rq)
                    @ map INSERT_JOURNAL_ROW inserted
                    @ map (\<lambda>(uid, row). UPDATE_JOURNAL_ROW row (bid (JStr uid)))
                          (zip (map fst (changed rq)) updated)
                    @ [UPDATE_TRANSACTION_HISTORY
                         [''uuid'' \<mapsto> bid (uuid en),
                          ''record_uuid'' \<mapsto> bid (get t0 ''record_uuid''),
                          ''user_id'' \<mapsto> user_id rq]])))"
  using assms by (auto simp add: buildTransaction_def Let_def split: sum.splits)

lemma buildTransaction_Inr:
  assumes "buildTransaction en st rq = Inr stmts"
  shows "\<exists>t0 ts fy inserted updated.
           lookupTransaction st (record_uuid rq) = Inr (t0 # ts)
         \<and> \<not> truthy (get t0 ''posted'')
         \<and> lookupFiscalYearByDate en (getTransactionDate (Some (changed rq)) (t0 # ts)) = Inr fy
         \<and> \<not> truthy (get fy ''locked'')
         \<and> transformColumns en (arrival_added en) (added rq) True (t0 # ts) fy = Inr inserted
         \<and> transformColumns en (arrival_changed en) (map snd (changed rq)) False (t0 # ts) fy
             = Inr updated
         \<and> stmts = map (\<lambda>row. REMOVE_JOURNAL_ROW (bid (get row ''uuid''))) (removed rq)
                    @ map INSERT_JOURNAL_ROW inserted
                    @ map (\<lambda>(uid, row). UPDATE_JOURNAL_ROW row (bid (JStr uid)))
                          (zip (map fst (changed rq)) updated)
                    @ [UPDATE_TRANSACTION_HISTORY
                         [''uuid'' \<mapsto> bid (uuid en),
                          ''record_uuid'' \<mapsto> bid (get t0 ''record_uuid''),
                          ''user_id'' \<mapsto> user_id rq]]"
proof (cases "lookupTransaction st (record_uuid rq)")
  case (Inl e)
  with assms show ?thesis by (simp add: buildTransaction_def Let_def)
next
  case (Inr tx)
  then obtain t0 ts where tx: "tx = t0 # ts"
    using lookupTransaction_nonempty by (cases tx) auto
  note L = Inr [unfolded tx]
  have np: "\<not> truthy (get t0 ''posted'')"
    using assms buildTransaction_posted [OF L, of en] by auto
  have c: "\<not> ((added rq = [] \<and> length (removed rq) \<ge> Suc (length ts))
         \<or> int (length (added rq)) - int (length (removed rq)) + int (Suc (length ts)) = 1)"
    using assms buildTransaction_too_few [OF L np, of en] by auto
  obtain fy where fy: "lookupFiscalYearByDate en (getTransactionDate (Some (changed rq)) (t0 # ts)) = Inr fy"
    and nl: "\<not> truthy (get fy ''locked'')"
    using assms L np c
    by (auto simp add: buildTransaction_def Let_def split: sum.splits if_splits)
  from c have c1: "\<not> (added rq = [] \<and> length (removed rq) \<ge> Suc (length ts))"
    and c2: "int (length (added rq)) - int (length (removed rq)) + int (Suc (length ts)) \<noteq> 1"
    by auto
  show ?thesis
    using assms L np fy nl
    unfolding buildTransaction_proceeds [OF L np c1 c2 fy nl]
    by (auto split: sum.splits)
qed

lemmas journal_eval =
  lookupTransaction_def naiveTransactionSearch_def buildTransactionQuery_def date_key_def
  getTransactionDate_def bid_def Let_def

lemmas rows_eval = rowA_def rowB_def rowP_def rowQ_def store0_def

lemma settle_one_fails:
  "settle_one en q rows = Inl e \<longleftrightarrow> lookup_outcome en q = Inl e"
  by (simp add: settle_one_outcome split: sum.splits)

lemma schedule_rows_requests:
  "schedule_rows en nr pid td cid fy i rows = Inr (rows', reqs) \<Longrightarrow>
     reqs = requests_from en pid td cid i rows"
  by (simp add: schedule_rows_eq split: if_splits)

lemma last_date_append:
  "last_date (xs @ ys) = (case last_date ys of Some d \<Rightarrow> Some d | None \<Rightarrow> last_date xs)"
  by (simp add: last_date_def Let_def)

lemma getTransactionDate_last_date:
  "getTransactionDate (Some chg) old =
     (case last_date (old @ map snd chg) of Some d \<Rightarrow> d | None \<Rightarrow> JUndefined)"
proof -
  have m: "(\<lambda>(uid :: string, row :: row). row) = snd"
    by auto
  show ?thesis
    by (simp add: getTransactionDate_def Let_def m last_date_def filter_map comp_def)
qed

lemma schedule_row_env:
  "parse_date en' = parse_date en \<Longrightarrow>
     schedule_row en' nr pid td cid fy i r = schedule_row en nr pid td cid fy i r"
  by (simp add: schedule_row_eq edited_row_def stamp_def expected_requests_def)

lemma schedule_rows_env:
  "parse_date en' = parse_date en \<Longrightarrow>
     schedule_rows en' nr pid td cid fy i rs = schedule_rows en nr pid td cid fy i rs"
  by (induction rs arbitrary: i)
     (simp_all add: schedule_row_env [of en' en] split: sum.splits prod.splits)

lemma settle_env:
  "db_exec en' = db_exec en \<Longrightarrow> settle en' qs rows = settle en qs rows"
proof (induction qs arbitrary: rows)
  case Nil
  then show ?case by simp
next
  case (Cons q qs)
  obtain request params asg i where q: "q = (request, params, asg, i)"
    by (cases q) auto
  from Cons.prems Cons.IH [OF Cons.prems] show ?case by (simp add: q split: sum.splits)
qed

lemma transformColumns_env:
  "parse_date en' = parse_date en \<Longrightarrow> db_exec en' = db_exec en \<Longrightarrow>
     transformColumns en' sched rows nr tx fy = transformColumns en sched rows nr tx fy"
  by (simp add: transformColumns_def schedule_rows_env [of en' en] settle_env [of en' en]
      Let_def split: list.splits sum.splits prod.splits)

lemma buildTransaction_fiscal_service:
  assumes L: "lookupTransaction st (record_uuid rq) = Inr tx"
    and f: "f (getTransactionDate (Some (changed rq)) tx)
              = lookupFiscalYearByDate en (getTransactionDate (Some (changed rq)) tx)"
  shows "buildTransaction (en\<lparr>lookupFiscalYearByDate := f\<rparr>) st rq = buildTransaction en st rq"
proof -
  have t: "transformColumns (en\<lparr>lookupFiscalYearByDate := f\<rparr>) sched rows nr tx' fy
             = transformColumns en sched rows nr tx' fy" for sched rows nr tx' fy
    by (rule transformColumns_env) simp_all
  show ?thesis
    using L f
    by (simp add: buildTransaction_def Let_def t
        cong del: if_weak_cong sum.case_cong_weak list.case_cong_weak)
qed

lemma is_date_new_Date [simp]: "is_date (new_Date parse v)"
  by (cases v) (simp_all add: is_date_def)

lemma get_eq_Some: "r k = Some v \<Longrightarrow> get r k = v"
  by (simp add: get_def)

lemma code_lookup_outcome:
  assumes "(request, asg, column) \<in> {(ACCOUNT_NUMBER_QUERY, Assign_account_id, ''id''),
             (ENTITY_QUERY, Assign_entity_uuid, ''uuid''),
             (REFERENCE_QUERY, Assign_reference_uuid, ''uuid'')}"
  shows "lookup_outcome en (request, params, asg, i) = Inr v \<longleftrightarrow>
           first_answer en request params column = Some v"
  using assms
  by (auto simp: lookup_outcome_def first_answer_def field_of_def
      split: sum.splits list.splits)

lemma rate_lookup_outcome:
  assumes "asg = Assign_debit \<or> asg = Assign_credit"
  shows "lookup_outcome en (EXCHANGE_RATE_QUERY, params, asg, i) = Inr v \<longleftrightarrow>
           first_answer en EXCHANGE_RATE_QUERY params ''amount'' = Some v \<and> truthy v"
    and "lookup_outcome en (EXCHANGE_RATE_QUERY, params, asg, i)
           = Inl (BadRequest MISSING_EXCHANGE_RATE) \<longleftrightarrow>
         (\<exists>v. first_answer en EXCHANGE_RATE_QUERY params ''amount'' = Some v \<and> \<not> truthy v)
         \<or> db_exec en EXCHANGE_RATE_QUERY params = Inl (BadRequest MISSING_EXCHANGE_RATE)"
  using assms
  by (auto simp: lookup_outcome_def first_answer_def field_of_def Let_def
      split: sum.splits list.splits if_splits)

lemma transformColumns_dated:
  assumes T: "transformColumns en sched rows nr tx fy = Inr out"
    and i: "i < length rows"
    and d: "truthy (get (rows ! i) ''trans_date'')"
  shows "get (out ! i) ''trans_date'' = new_Date (parse_date en) (get (rows ! i) ''trans_date'')"
    and "get (out ! i) ''fiscal_year_id'' = get fy ''fiscal_year_id''"
    and "get (out ! i) ''period_id'' = get fy ''id''"
proof -
  from T obtain t0 ts where tx: "tx = t0 # ts"
    by (cases tx) (auto simp: transformColumns_def)
  have k: "\<forall>a. ''trans_date'' \<noteq> field_of a" "\<forall>a. ''fiscal_year_id'' \<noteq> field_of a"
    "\<forall>a. ''period_id'' \<noteq> field_of a"
    by (auto simp: field_of_def split: assignment.splits)
  note o = transformColumns_other_key [OF T [unfolded tx] i]
  show "get (out ! i) ''trans_date'' = new_Date (parse_date en) (get (rows ! i) ''trans_date'')"
    using o [OF k(1)] edited_row_date(1) [OF d, of en fy] by (simp add: get_eq_Some)
  show "get (out ! i) ''fiscal_year_id'' = get fy ''fiscal_year_id''"
    using o [OF k(2)] edited_row_date(2) [OF d, of en fy] by (simp add: get_eq_Some)
  show "get (out ! i) ''period_id'' = get fy ''id''"
    using o [OF k(3)] edited_row_date(3) [OF d, of en fy] by (simp add: get_eq_Some)
qed

lemma transformColumns_unasked:
  assumes T: "transformColumns en sched rows nr (t0 # ts) fy = Inr out"
    and i: "i < length rows"
    and n: "\<forall>q \<in> set (expected_requests en (get t0 ''project_id'') (get t0 ''trans_date'')
                 (get t0 ''currency_id'') i (rows ! i)). snd (slot q) \<noteq> a"
  shows "(out ! i) (field_of a) = (rows ! i) (field_of a)"
proof -
  let ?reqs = "requests_from en (get t0 ''project_id'') (get t0 ''trans_date'')
                 (get t0 ''currency_id'') 0 rows"
  have "\<forall>q \<in> set ?reqs. slot q \<noteq> (i, a)"
  proof
    fix q assume q: "q \<in> set ?reqs"
    then obtain j where j: "j < length rows"
      "q \<in> set (expected_requests en (get t0 ''project_id'') (get t0 ''trans_date'')
                 (get t0 ''currency_id'') j (rows ! j))"
      by (auto simp: set_requests_from)
    show "slot q \<noteq> (i, a)"
    proof (cases "j = i")
      case True
      with j n show ?thesis by (cases "slot q") auto
    next
      case False
      with slot_expected_requests [OF j(2)] show ?thesis by auto
    qed
  qed
  then have "(fold (put_answer en) ?reqs (map (edited_row en fy) rows) ! i) (field_of a)
             = (map (edited_row en fy) rows ! i) (field_of a)"
    by (rule fold_put_answer_untouched)
  with T i show ?thesis
    by (simp add: transformColumns_Inr edited_row_field)
qed

lemma expected_requests_asked:
  "truthy (get r ''account_number'') \<Longrightarrow>
     (ACCOUNT_NUMBER_QUERY, [get r ''account_number''], Assign_account_id, i)
       \<in> set (expected_requests en pid td cid i r)"
  "truthy (get r ''hrEntity'') \<Longrightarrow>
     (ENTITY_QUERY, [get r ''hrEntity''], Assign_entity_uuid, i)
       \<in> set (expected_requests en pid td cid i r)"
  "truthy (get r ''hrReference'') \<Longrightarrow>
     (REFERENCE_QUERY, [get r ''hrReference''], Assign_reference_uuid, i)
       \<in> set (expected_requests en pid td cid i r)"
  "truthy (get r ''debit_equiv'') \<Longrightarrow>
     (EXCHANGE_RATE_QUERY, rate_params en (t0 # ts) r ''debit_equiv'', Assign_debit, i)
       \<in> set (expected_requests en (get t0 ''project_id'') (get t0 ''trans_date'')
                 (get t0 ''currency_id'') i r)"
  "truthy (get r ''credit_equiv'') \<Longrightarrow>
     (EXCHANGE_RATE_QUERY, rate_params en (t0 # ts) r ''credit_equiv'', Assign_credit, i)
       \<in> set (expected_requests en (get t0 ''project_id'') (get t0 ''trans_date'')
                 (get t0 ''currency_id'') i r)"
  by (simp_all add: expected_requests_def rate_params_def Let_def)

lemma expected_requests_unasked:
  "\<not> truthy (get r ''account_number'') \<Longrightarrow>
     \<forall>q \<in> set (expected_requests en pid td cid i r). snd (slot q) \<noteq> Assign_account_id"
  "\<not> truthy (get r ''hrEntity'') \<Longrightarrow>
     \<forall>q \<in> set (expected_requests en pid td cid i r). snd (slot q) \<noteq> Assign_entity_uuid"
  "\<not> truthy (get r ''hrReference'') \<Longrightarrow>
     \<forall>q \<in> set (expected_requests en pid td cid i r). snd (slot q) \<noteq> Assign_reference_uuid"
  "\<not> truthy (get r ''debit_equiv'') \<Longrightarrow>
     \<forall>q \<in> set (expected_requests en pid td cid i r). snd (slot q) \<noteq> Assign_debit"
  "\<not> truthy (get r ''credit_equiv'') \<Longrightarrow>
     \<forall>q \<in> set (expected_requests en pid td cid i r). snd (slot q) \<noteq> Assign_credit"
  by (auto simp add: expected_requests_def Let_def slot_def split: if_splits)

lemma transformColumns_asked:
  assumes T: "transformColumns en sched rows nr (t0 # ts) fy = Inr out"
    and i: "i < length rows"
    and q: "(request, params, asg, i)
              \<in> set (expected_requests en (get t0 ''project_id'') (get t0 ''trans_date'')
                 (get t0 ''currency_id'') i (rows ! i))"
  shows "lookup_outcome en (request, params, asg, i) = Inr (get (out ! i) (field_of asg))"
  using transformColumns_answer [OF T i q] by (auto simp: slot_def get_eq_Some)

lemma transformColumns_answered:
  assumes T: "transformColumns en sched rows nr (t0 # ts) fy = Inr out"
    and i: "i < length rows"
  shows "answered en (t0 # ts) (rows ! i) (out ! i)"
proof -
  note asked = transformColumns_asked [OF T i]
  note unasked = transformColumns_unasked [OF T i]
  have 1: "first_answer en ACCOUNT_NUMBER_QUERY [get (rows ! i) ''account_number''] ''id''
              = Some (get (out ! i) ''account_id'')"
    if "truthy (get (rows ! i) ''account_number'')"
    using asked [OF expected_requests_asked(1) [OF that]]
    by (simp add: code_lookup_outcome [of _ _ "''id''"] field_of_def)
  have 2: "first_answer en ENTITY_QUERY [get (rows ! i) ''hrEntity''] ''uuid''
              = Some (get (out ! i) ''entity_uuid'')"
    if "truthy (get (rows ! i) ''hrEntity'')"
    using asked [OF expected_requests_asked(2) [OF that]]
    by (simp add: code_lookup_outcome [of _ _ "''uuid''"] field_of_def)
  have 3: "first_answer en REFERENCE_QUERY [get (rows ! i) ''hrReference''] ''uuid''
              = Some (get (out ! i) ''reference_uuid'')"
    if "truthy (get (rows ! i) ''hrReference'')"
    using asked [OF expected_requests_asked(3) [OF that]]
    by (simp add: code_lookup_outcome [of _ _ "''uuid''"] field_of_def)
  have 4: "first_answer en EXCHANGE_RATE_QUERY
              (rate_params en (t0 # ts) (rows ! i) ''debit_equiv'') ''amount''
              = Some (get (out ! i) ''debit'')"
    if "truthy (get (rows ! i) ''debit_equiv'')"
    using asked [OF expected_requests_asked(4) [OF that]]
    by (simp add: rate_lookup_outcome(1) field_of_def)
  have 5: "first_answer en EXCHANGE_RATE_QUERY
              (rate_params en (t0 # ts) (rows ! i) ''credit_equiv'') ''amount''
              = Some (get (out ! i) ''credit'')"
    if "truthy (get (rows ! i) ''credit_equiv'')"
    using asked [OF expected_requests_asked(5) [OF that]]
    by (simp add: rate_lookup_outcome(1) field_of_def)
  have 6: "(out ! i) ''account_id'' = (rows ! i) ''account_id''"
    if "\<not> truthy (get (rows ! i) ''account_number'')"
    using unasked [OF expected_requests_unasked(1) [OF that]] by (simp add: field_of_def)
  have 7: "(out ! i) ''entity_uuid'' = (rows ! i) ''entity_uuid''"
    if "\<not> truthy (get (rows ! i) ''hrEntity'')"
    using unasked [OF expected_requests_unasked(2) [OF that]] by (simp add: field_of_def)
  have 8: "(out ! i) ''reference_uuid'' = (rows ! i) ''reference_uuid''"
    if "\<not> truthy (get (rows ! i) ''hrReference'')"
    using unasked [OF expected_requests_unasked(3) [OF that]] by (simp add: field_of_def)
  have 9: "(out ! i) ''debit'' = (rows ! i) ''debit''"
    if "\<not> truthy (get (rows ! i) ''debit_equiv'')"
    using unasked [OF expected_requests_unasked(4) [OF that]] by (simp add: field_of_def)
  have 10: "(out ! i) ''credit'' = (rows ! i) ''credit''"
    if "\<not> truthy (get (rows ! i) ''credit_equiv'')"
    using unasked [OF expected_requests_unasked(5) [OF that]] by (simp add: field_of_def)
  show ?thesis
    unfolding answered_def using 1 2 3 4 5 6 7 8 9 10 by simp
qed

lemmas transform_eval =
  transformColumns_def schedule_row_def Let_def env0_def rowA_def

lemma length_arrival [simp]: "length (arrival sched xs) = length xs"
  using mset_arrival [of sched xs] by (metis size_mset)

lemma arrival_cong:
  "(\<And>n. n < length xs \<Longrightarrow> sched n = sched' n) \<Longrightarrow> arrival sched xs = arrival sched' xs"
  by (induction xs) (simp_all add: Let_def)

lemma arrival_complete:
  "mset ys = mset xs \<Longrightarrow> \<exists>sched. arrival sched xs = ys"
proof (induction xs arbitrary: ys)
  case Nil
  then show ?case by simp
next
  case (Cons x xs)
  then have "x \<in> set ys"
    by (metis list.set_intros(1) mset_eq_setD)
  then obtain as bs where ys: "ys = as @ x # bs"
    by (auto simp: in_set_conv_decomp)
  with Cons.prems have m: "mset (as @ bs) = mset xs" by simp
  then obtain sched where s: "arrival sched xs = as @ bs"
    using Cons.IH by blast
  from m have len: "length as + length bs = length xs"
    by (metis length_append size_mset)
  let ?sched = "sched(length xs := length as)"
  have "arrival ?sched xs = arrival sched xs"
    by (rule arrival_cong) simp
  with s len have "arrival ?sched (x # xs) = as @ x # bs"
    by (simp add: Let_def)
  with ys show ?case by blast
qed

subsection \<open>The handler after its checks\<close>

text \<open>
  What the handler does once the transaction is loaded, is not posted and keeps enough
  rows; when a run of the row transform is fulfilled and by which lookup it is rejected;
  how a code of the handler's own reaches the answer; the outcome of a conversion in
  terms of the store's answer; the edit with a single failing lookup; and the places of
  the rows among the statements.
\<close>

lemma buildTransaction_resolution:
  assumes "lookupTransaction st (record_uuid rq) = Inr (t0 # ts)"
    and "\<not> truthy (get t0 ''posted'')"
    and "\<not> (added rq = [] \<and> length (removed rq) \<ge> Suc (length ts))"
    and "int (length (added rq)) - int (length (removed rq)) + int (Suc (length ts)) \<noteq> 1"
  shows "buildTransaction en st rq =
     (case lookupFiscalYearByDate en (getTransactionDate (Some (changed rq)) (t0 # ts)) of
        Inl e \<Rightarrow> Inl e
      | Inr fiscalYear \<Rightarrow>
          if truthy (get fiscalYear ''locked'') then Inl (BadRequest CLOSED_FISCAL_YEAR)
          else
            (case transformColumns en (arrival_added en) (added rq) True (t0 # ts)
                    fiscalYear of
               Inl e \<Rightarrow> Inl e
             | Inr inserted \<Rightarrow>
                 (case transformColumns en (arrival_changed en) (map snd (changed rq)) False
                         (t0 # ts) fiscalYear of
                    Inl e \<Rightarrow> Inl e
                  | Inr updated \<Rightarrow>
                      Inr (map (\<lambda>row. REMOVE_JOURNAL_ROW (bid (get row ''uuid'')))
                               (removed rq)
                           @ map INSERT_JOURNAL_ROW inserted
                           @ map (\<lambda>(uid, row). UPDATE_JOURNAL_ROW row (bid (JStr uid)))
                                 (zip (map fst (changed rq)) updated)
                           @ [UPDATE_TRANSACTION_HISTORY
                                [''uuid'' \<mapsto> bid (uuid en),
                                 ''record_uuid'' \<mapsto> bid (get t0 ''record_uuid''),
                                 ''user_id'' \<mapsto> user_id rq]]))))"
  using assms by (auto simp add: buildTransaction_def Let_def split: sum.splits)

lemma transformColumns_outcomes:
  assumes S: "schedule_rows en nr (get t0 ''project_id'') (get t0 ''trans_date'')
                (get t0 ''currency_id'') fy 0 rows = Inr (rows', requests)"
  shows "(\<exists>out. transformColumns en sched rows nr (t0 # ts) fy = Inr out)
           \<longleftrightarrow> (\<forall>q \<in> set requests. \<not> isl (lookup_outcome en q))"
    and "transformColumns en sched rows nr (t0 # ts) fy = Inl e \<Longrightarrow>
           \<exists>q \<in> set requests. lookup_outcome en q = Inl e"
proof -
  from S have n: "\<not> (nr \<and> (\<exists>r \<in> set rows. \<not> truthy (get r ''account_number'')))"
    and r: "requests = requests_from en (get t0 ''project_id'') (get t0 ''trans_date'')
                (get t0 ''currency_id'') 0 rows"
    by (auto simp: schedule_rows_eq split: if_splits)
  have "(\<not> isl x) = (\<exists>v. x = Inr v)" for x :: "error + jsval"
    by (cases x) auto
  then show "(\<exists>out. transformColumns en sched rows nr (t0 # ts) fy = Inr out)
           \<longleftrightarrow> (\<forall>q \<in> set requests. \<not> isl (lookup_outcome en q))"
    using n by (simp add: transformColumns_Inr r)
  show "\<exists>q \<in> set requests. lookup_outcome en q = Inl e"
    if "transformColumns en sched rows nr (t0 # ts) fy = Inl e"
    using transformColumns_Inl [OF that] n by (auto simp: r)
qed

lemma editTransaction_BadRequest:
  assumes SF: "\<forall>statements. store_rejects en st statements \<noteq> Some (BadRequest c)"
  shows "fst (editTransaction en st rq) = Inl (BadRequest c)
           \<longleftrightarrow> buildTransaction en st rq = Inl (BadRequest c)"
proof (cases "buildTransaction en st rq")
  case (Inl e)
  then show ?thesis by (simp add: editTransaction_def)
next
  case (Inr statements)
  show ?thesis
  proof (cases "store_rejects en st statements")
    case None
    with Inr show ?thesis
      by (simp add: editTransaction_def execute_def lookupTransaction_def Let_def)
  next
    case (Some e)
    with SF have "e \<noteq> BadRequest c" by auto
    with Some Inr show ?thesis by (simp add: editTransaction_def execute_def)
  qed
qed

lemma rate_request_outcome:
  assumes a: "asg = Assign_debit \<or> asg = Assign_credit"
    and A: "db_exec en EXCHANGE_RATE_QUERY params = Inr results"
  shows "lookup_outcome en (EXCHANGE_RATE_QUERY, params, asg, i) = Inr v \<longleftrightarrow>
           results \<noteq> [] \<and> v = get (hd results) ''amount'' \<and> truthy v"
    and "lookup_outcome en (EXCHANGE_RATE_QUERY, params, asg, i)
           = Inl (BadRequest MISSING_EXCHANGE_RATE) \<longleftrightarrow>
         results \<noteq> [] \<and> \<not> truthy (get (hd results) ''amount'')"
proof -
  have first: "first_answer en EXCHANGE_RATE_QUERY params ''amount''
               = (if results = [] then None else Some (get (hd results) ''amount''))"
    using A by (cases results) (simp_all add: first_answer_def)
  show "lookup_outcome en (EXCHANGE_RATE_QUERY, params, asg, i) = Inr v \<longleftrightarrow>
           results \<noteq> [] \<and> v = get (hd results) ''amount'' \<and> truthy v"
    using a by (auto simp: rate_lookup_outcome(1) first)
  show "lookup_outcome en (EXCHANGE_RATE_QUERY, params, asg, i)
           = Inl (BadRequest MISSING_EXCHANGE_RATE) \<longleftrightarrow>
         results \<noteq> [] \<and> \<not> truthy (get (hd results) ''amount'')"
    using a A by (auto simp: rate_lookup_outcome(2) first)
qed

lemma buildTransaction_single_failure:
  assumes p: "lookupTransaction st (record_uuid rq) = Inr (t0 # ts)"
      "\<not> truthy (get t0 ''posted'')"
      "\<not> (added rq = [] \<and> length (removed rq) \<ge> Suc (length ts))"
      "int (length (added rq)) - int (length (removed rq)) + int (Suc (length ts)) \<noteq> 1"
      "lookupFiscalYearByDate en (getTransactionDate (Some (changed rq)) (t0 # ts)) = Inr fy"
      "\<not> truthy (get fy ''locked'')"
    and SA: "schedule_rows en True (get t0 ''project_id'') (get t0 ''trans_date'')
               (get t0 ''currency_id'') fy 0 (added rq) = Inr (rowsA, requestsA)"
    and SC: "schedule_rows en False (get t0 ''project_id'') (get t0 ''trans_date'')
               (get t0 ''currency_id'') fy 0 (map snd (changed rq)) = Inr (rowsC, requestsC)"
    and mem: "q \<in> set requestsA \<union> set requestsC"
    and others: "\<forall>q' \<in> set requestsA \<union> set requestsC.
                   q' \<noteq> q \<longrightarrow> \<not> isl (lookup_outcome en q')"
  shows "buildTransaction en st rq = Inl e \<longleftrightarrow> lookup_outcome en q = Inl e"
proof -
  let ?TA = "transformColumns en (arrival_added en) (added rq) True (t0 # ts) fy"
  let ?TC = "transformColumns en (arrival_changed en) (map snd (changed rq)) False (t0 # ts) fy"
  note B = buildTransaction_proceeds [OF p]
  note OA = transformColumns_outcomes [OF SA, of "arrival_added en" ts]
  note OC = transformColumns_outcomes [OF SC, of "arrival_changed en" ts]
  have only: "q' = q" if "lookup_outcome en q' = Inl e'" "q' \<in> set requestsA \<union> set requestsC"
    for q' e'
  proof (rule ccontr)
    assume "q' \<noteq> q"
    with others that(2) have "\<not> isl (lookup_outcome en q')" by blast
    with that(1) show False by simp
  qed
  show ?thesis
  proof (cases ?TA)
    case (Inl e')
    from OA(2) [OF Inl] obtain q' where q': "q' \<in> set requestsA" "lookup_outcome en q' = Inl e'"
      by blast
    with only [of q' e'] have "lookup_outcome en q = Inl e'" by simp
    moreover from Inl have "buildTransaction en st rq = Inl e'" by (simp add: B)
    ultimately show ?thesis by auto
  next
    case TA: (Inr inserted)
    show ?thesis
    proof (cases ?TC)
      case (Inl e')
      from OC(2) [OF Inl] obtain q' where q': "q' \<in> set requestsC" "lookup_outcome en q' = Inl e'"
        by blast
      with only [of q' e'] have "lookup_outcome en q = Inl e'" by simp
      moreover from Inl TA have "buildTransaction en st rq = Inl e'" by (simp add: B)
      ultimately show ?thesis by auto
    next
      case TC: (Inr updated)
      from TA OA(1) have "\<forall>q \<in> set requestsA. \<not> isl (lookup_outcome en q)"
        by blast
      moreover from TC OC(1) have "\<forall>q \<in> set requestsC. \<not> isl (lookup_outcome en q)"
        by blast
      ultimately have "\<not> isl (lookup_outcome en q)" using mem by blast
      moreover from TA TC have "\<not> isl (buildTransaction en st rq)" by (simp add: B)
      ultimately show ?thesis by auto
    qed
  qed
qed

lemma buildTransaction_positions:
  assumes b: "buildTransaction en st rq = Inr statements"
    and L: "lookupTransaction st (record_uuid rq) = Inr (t0 # ts)"
    and F: "lookupFiscalYearByDate en (getTransactionDate (Some (changed rq)) (t0 # ts)) = Inr fy"
  shows "\<exists>inserted updated.
           transformColumns en (arrival_added en) (added rq) True (t0 # ts) fy = Inr inserted
         \<and> transformColumns en (arrival_changed en) (map snd (changed rq)) False (t0 # ts) fy
             = Inr updated
         \<and> (\<forall>i < length (added rq).
              statements ! (length (removed rq) + i) = INSERT_JOURNAL_ROW (inserted ! i))
         \<and> (\<forall>i < length (changed rq).
              statements ! (length (removed rq) + length (added rq) + i)
                = UPDATE_JOURNAL_ROW (updated ! i) (bid (JStr (fst (changed rq ! i)))))"
proof -
  from buildTransaction_Inr [OF b] L F obtain inserted updated where
    TA: "transformColumns en (arrival_added en) (added rq) True (t0 # ts) fy = Inr inserted"
    and TC: "transformColumns en (arrival_changed en) (map snd (changed rq)) False (t0 # ts) fy
             = Inr updated"
    and S: "statements = map (\<lambda>row. REMOVE_JOURNAL_ROW (bid (get row ''uuid''))) (removed rq)
                    @ map INSERT_JOURNAL_ROW inserted
                    @ map (\<lambda>(uid, row). UPDATE_JOURNAL_ROW row (bid (JStr uid)))
                          (zip (map fst (changed rq)) updated)
                    @ [UPDATE_TRANSACTION_HISTORY
                         [''uuid'' \<mapsto> bid (uuid en),
                          ''record_uuid'' \<mapsto> bid (get t0 ''record_uuid''),
                          ''user_id'' \<mapsto> user_id rq]]"
    by auto
  have la: "length inserted = length (added rq)"
    using TA by (rule transformColumns_length)
  have lc: "length updated = length (changed rq)"
    using transformColumns_length [OF TC] by simp
  have 1: "statements ! (length (removed rq) + i) = INSERT_JOURNAL_ROW (inserted ! i)"
    if "i < length (added rq)" for i
    using that la by (simp add: S nth_append)
  have 2: "statements ! (length (removed rq) + length (added rq) + i)
                = UPDATE_JOURNAL_ROW (updated ! i) (bid (JStr (fst (changed rq ! i))))"
    if "i < length (changed rq)" for i
    using that la lc by (simp add: S nth_append)
  from TA TC 1 2 show ?thesis by blast
qed

subsection \<open>The row count\<close>

text \<open>
  C1. An edit that would leave fewer than two rows (existing minus removed plus added)
  is to fail with \<open>BadRequest\<close> \<open>TRANSACTION_MUST_CONTAIN_ROWS\<close> and commit nothing. The
  handler tests for two cases only: no row added and at least as many rows removed as
  exist, and exactly one row left. A request that adds a row and names more rows to
  remove than that leaves passes the test. Transaction \<open>t1\<close> has two rows, neither posted;
  the request that removes the first, the second and the first again and adds one row
  would leave 2 - 3 + 1 = 0 rows by the count. The edit is carried out all the same:
  it does not fail, and afterwards the journal holds the added row alone and the history
  holds one record.
\<close>

theorem row_count_guard_bypassed:
  "int (length (naiveTransactionSearch store0 (JStr ''t1'')))
       - int (length (removed request_removing_twice))
       + int (length (added request_removing_twice)) = 0
   \<and> \<not> truthy (get (hd (naiveTransactionSearch store0 (JStr ''t1''))) ''posted'')
   \<and> \<not> isl (fst (editTransaction env0 store0 request_removing_twice))
   \<and> map (\<lambda>row. get row ''uuid'')
         (posting_journal (snd (editTransaction env0 store0 request_removing_twice)))
       = [JStr ''n'']
   \<and> length (transaction_history (snd (editTransaction env0 store0 request_removing_twice)))
       = 1"
  by (simp add: journal_eval rows_eval request_removing_twice_def
      editTransaction_def buildTransaction_def transformColumns_def schedule_row_def
      execute_def env0_def)

subsection \<open>The effective transaction date\<close>

text \<open>
  C2, as amended. The date used for the fiscal-year resolution of an edit is the date of
  the last changed row that carries one, else the date of the last existing row that
  carries one (the last value of the sequence of existing rows followed by changed rows);
  added rows are not consulted. In particular a single changed row with a date decides
  it, whatever the existing rows hold. The edit asks the fiscal service about this date
  only: a service that agrees with the given one at this date gives the same edit. And
  the edit uses the answer of the service at this date: once the transaction is loaded,
  is not posted and keeps enough rows, an error of the service at this date is the error
  of the edit, a locked entry fails the edit with \<open>BadRequest\<close> \<open>CLOSED_FISCAL_YEAR\<close>,
  both leaving the store as it was, and an unlocked entry is the calendar entry handed
  to both runs of the row transform, whose rows make up the statements of the edit.
\<close>

theorem transaction_date_precedence:
  "getTransactionDate (Some changedRows) oldRows =
     (case last_date (map snd changedRows) of
        Some d \<Rightarrow> d
      | None \<Rightarrow> (case last_date oldRows of Some d \<Rightarrow> d | None \<Rightarrow> JUndefined))
   \<and> (truthy d \<longrightarrow>
        getTransactionDate (Some [(uid, row(''trans_date'' \<mapsto> d))]) oldRows = d)
   \<and> (lookupTransaction st (record_uuid rq) = Inr tx
        \<and> f (getTransactionDate (Some (changed rq)) tx)
            = lookupFiscalYearByDate en (getTransactionDate (Some (changed rq)) tx)
      \<longrightarrow> editTransaction (en\<lparr>lookupFiscalYearByDate := f\<rparr>) st rq = editTransaction en st rq)
   \<and> (lookupTransaction st (record_uuid rq) = Inr tx
        \<and> \<not> truthy (get (hd tx) ''posted'')
        \<and> \<not> (added rq = [] \<and> length (removed rq) \<ge> length tx)
        \<and> int (length (added rq)) - int (length (removed rq)) + int (length tx) \<noteq> 1
      \<longrightarrow>
        (\<forall>e. lookupFiscalYearByDate en (getTransactionDate (Some (changed rq)) tx) = Inl e
             \<longrightarrow> editTransaction en st rq = (Inl e, st))
      \<and> (\<forall>fiscalYear.
             lookupFiscalYearByDate en (getTransactionDate (Some (changed rq)) tx)
               = Inr fiscalYear
             \<and> truthy (get fiscalYear ''locked'')
             \<longrightarrow> editTransaction en st rq = (Inl (BadRequest CLOSED_FISCAL_YEAR), st))
      \<and> (\<forall>fiscalYear.
             lookupFiscalYearByDate en (getTransactionDate (Some (changed rq)) tx)
               = Inr fiscalYear
             \<and> \<not> truthy (get fiscalYear ''locked'')
             \<longrightarrow> buildTransaction en st rq =
                  (case transformColumns en (arrival_added en) (added rq) True tx
                          fiscalYear of
                     Inl e \<Rightarrow> Inl e
                   | Inr inserted \<Rightarrow>
                       (case transformColumns en (arrival_changed en) (map snd (changed rq))
                               False tx fiscalYear of
                          Inl e \<Rightarrow> Inl e
                        | Inr updated \<Rightarrow>
                            Inr (map (\<lambda>row. REMOVE_JOURNAL_ROW (bid (get row ''uuid'')))
                                     (removed rq)
                                 @ map INSERT_JOURNAL_ROW inserted
                                 @ map (\<lambda>(uid, row). UPDATE_JOURNAL_ROW row (bid (JStr uid)))
                                       (zip (map fst (changed rq)) updated)
                                 @ [UPDATE_TRANSACTION_HISTORY
                                      [''uuid'' \<mapsto> bid (uuid en),
                                       ''record_uuid'' \<mapsto> bid (get (hd tx) ''record_uuid''),
                                       ''user_id'' \<mapsto> user_id rq]])))))"
proof (intro conjI impI allI)
  show "getTransactionDate (Some changedRows) oldRows =
     (case last_date (map snd changedRows) of
        Some d \<Rightarrow> d
      | None \<Rightarrow> (case last_date oldRows of Some d \<Rightarrow> d | None \<Rightarrow> JUndefined))"
    by (simp add: getTransactionDate_last_date last_date_append split: option.splits)
  show "getTransactionDate (Some [(uid, row(''trans_date'' \<mapsto> d))]) oldRows = d" if "truthy d"
    using that by (simp add: getTransactionDate_last_date last_date_append last_date_def)
  show "editTransaction (en\<lparr>lookupFiscalYearByDate := f\<rparr>) st rq = editTransaction en st rq"
    if h: "lookupTransaction st (record_uuid rq) = Inr tx
        \<and> f (getTransactionDate (Some (changed rq)) tx)
            = lookupFiscalYearByDate en (getTransactionDate (Some (changed rq)) tx)"
  proof -
    from h have "buildTransaction (en\<lparr>lookupFiscalYearByDate := f\<rparr>) st rq
                   = buildTransaction en st rq"
      using buildTransaction_fiscal_service [of st rq tx f en] by simp
    then show ?thesis
      by (simp add: editTransaction_def execute_def cong del: sum.case_cong_weak)
  qed
next
  fix e
  assume h: "lookupTransaction st (record_uuid rq) = Inr tx
        \<and> \<not> truthy (get (hd tx) ''posted'')
        \<and> \<not> (added rq = [] \<and> length (removed rq) \<ge> length tx)
        \<and> int (length (added rq)) - int (length (removed rq)) + int (length tx) \<noteq> 1"
    and f: "lookupFiscalYearByDate en (getTransactionDate (Some (changed rq)) tx) = Inl e"
  from h obtain t0 ts where tx: "tx = t0 # ts"
    using lookupTransaction_nonempty by (cases tx) auto
  from h have p: "lookupTransaction st (record_uuid rq) = Inr (t0 # ts)"
    "\<not> truthy (get t0 ''posted'')"
    "\<not> (added rq = [] \<and> length (removed rq) \<ge> Suc (length ts))"
    "int (length (added rq)) - int (length (removed rq)) + int (Suc (length ts)) \<noteq> 1"
    by (simp_all add: tx)
  have "buildTransaction en st rq = Inl e"
    using f unfolding tx buildTransaction_resolution [OF p] by simp
  then show "editTransaction en st rq = (Inl e, st)"
    by (rule editTransaction_rejected)
next
  fix fiscalYear
  assume h: "lookupTransaction st (record_uuid rq) = Inr tx
        \<and> \<not> truthy (get (hd tx) ''posted'')
        \<and> \<not> (added rq = [] \<and> length (removed rq) \<ge> length tx)
        \<and> int (length (added rq)) - int (length (removed rq)) + int (length tx) \<noteq> 1"
    and f: "lookupFiscalYearByDate en (getTransactionDate (Some (changed rq)) tx)
               = Inr fiscalYear \<and> truthy (get fiscalYear ''locked'')"
  from h obtain t0 ts where tx: "tx = t0 # ts"
    using lookupTransaction_nonempty by (cases tx) auto
  from h have p: "lookupTransaction st (record_uuid rq) = Inr (t0 # ts)"
    "\<not> truthy (get t0 ''posted'')"
    "\<not> (added rq = [] \<and> length (removed rq) \<ge> Suc (length ts))"
    "int (length (added rq)) - int (length (removed rq)) + int (Suc (length ts)) \<noteq> 1"
    by (simp_all add: tx)
  have "buildTransaction en st rq = Inl (BadRequest CLOSED_FISCAL_YEAR)"
    using f unfolding tx buildTransaction_resolution [OF p] by simp
  then show "editTransaction en st rq = (Inl (BadRequest CLOSED_FISCAL_YEAR), st)"
    by (rule editTransaction_rejected)
next
  fix fiscalYear
  assume h: "lookupTransaction st (record_uuid rq) = Inr tx
        \<and> \<not> truthy (get (hd tx) ''posted'')
        \<and> \<not> (added rq = [] \<and> length (removed rq) \<ge> length tx)
        \<and> int (length (added rq)) - int (length (removed rq)) + int (length tx) \<noteq> 1"
    and f: "lookupFiscalYearByDate en (getTransactionDate (Some (changed rq)) tx)
               = Inr fiscalYear \<and> \<not> truthy (get fiscalYear ''locked'')"
  from h obtain t0 ts where tx: "tx = t0 # ts"
    using lookupTransaction_nonempty by (cases tx) auto
  from h have p: "lookupTransaction st (record_uuid rq) = Inr (t0 # ts)"
    "\<not> truthy (get t0 ''posted'')"
    "\<not> (added rq = [] \<and> length (removed rq) \<ge> Suc (length ts))"
    "int (length (added rq)) - int (length (removed rq)) + int (Suc (length ts)) \<noteq> 1"
    by (simp_all add: tx)
  show "buildTransaction en st rq =
                  (case transformColumns en (arrival_added en) (added rq) True tx
                          fiscalYear of
                     Inl e \<Rightarrow> Inl e
                   | Inr inserted \<Rightarrow>
                       (case transformColumns en (arrival_changed en) (map snd (changed rq))
                               False tx fiscalYear of
                          Inl e \<Rightarrow> Inl e
                        | Inr updated \<Rightarrow>
                            Inr (map (\<lambda>row. REMOVE_JOURNAL_ROW (bid (get row ''uuid'')))
                                     (removed rq)
                                 @ map INSERT_JOURNAL_ROW inserted
                                 @ map (\<lambda>(uid, row). UPDATE_JOURNAL_ROW row (bid (JStr uid)))
                                       (zip (map fst (changed rq)) updated)
                                 @ [UPDATE_TRANSACTION_HISTORY
                                      [''uuid'' \<mapsto> bid (uuid en),
                                       ''record_uuid'' \<mapsto> bid (get (hd tx) ''record_uuid''),
                                       ''user_id'' \<mapsto> user_id rq]])))"
    using f unfolding tx buildTransaction_resolution [OF p] list.sel by simp
qed

theorem transaction_date_precedence_witness:
  "truthy (JStr ''2024-02-15'')
   \<and> getTransactionDate (Some (changed request_changing_date))
        (naiveTransactionSearch store0 (JStr ''t1'')) = JStr ''2024-02-15''
   \<and> editTransaction
        (env0\<lparr>lookupFiscalYearByDate :=
                \<lambda>d. if d = JStr ''2024-02-15'' then lookupFiscalYearByDate env0 d
                    else Inl NotFound\<rparr>)
        store0 request_changing_date
      = editTransaction env0 store0 request_changing_date
   \<and> editTransaction
        (env0\<lparr>lookupFiscalYearByDate :=
                \<lambda>d. if d = JStr ''2024-02-15'' then Inl NotFound
                    else lookupFiscalYearByDate env0 d\<rparr>)
        store0 request_changing_date
      = (Inl NotFound, store0)
   \<and> editTransaction
        (env0\<lparr>lookupFiscalYearByDate :=
                \<lambda>d. if d = JStr ''2024-02-15'' then Inr [''locked'' \<mapsto> JNum 1]
                    else lookupFiscalYearByDate env0 d\<rparr>)
        store0 request_changing_date
      = (Inl (BadRequest CLOSED_FISCAL_YEAR), store0)
   \<and> (case projr (buildTransaction env0 store0 request_changing_date) ! 0 of
        UPDATE_JOURNAL_ROW row u \<Rightarrow> get row ''period_id'' = JNum 32
      | _ \<Rightarrow> False)"
proof -
  let ?tx = "naiveTransactionSearch store0 (JStr ''t1'')"
  let ?f = "\<lambda>d. if d = JStr ''2024-02-15'' then lookupFiscalYearByDate env0 d else Inl NotFound"
  let ?envF = "env0\<lparr>lookupFiscalYearByDate :=
                \<lambda>d. if d = JStr ''2024-02-15'' then Inl NotFound
                    else lookupFiscalYearByDate env0 d\<rparr>"
  let ?envL = "env0\<lparr>lookupFiscalYearByDate :=
                \<lambda>d. if d = JStr ''2024-02-15'' then Inr [''locked'' \<mapsto> JNum 1]
                    else lookupFiscalYearByDate env0 d\<rparr>"
  let ?entry = "[''fiscal_year_id'' \<mapsto> JNum 3, ''id'' \<mapsto> JNum 32, ''locked'' \<mapsto> JNum 0]"
  have t: "truthy (JStr ''2024-02-15'')" by simp
  have c: "changed request_changing_date = [(''a'', Map.empty(''trans_date'' \<mapsto> JStr ''2024-02-15''))]"
    by (simp add: request_changing_date_def)
  note T = transaction_date_precedence [of "changed request_changing_date" ?tx
      "JStr ''2024-02-15''" "''a''" Map.empty store0 request_changing_date ?tx]
  have d: "getTransactionDate (Some (changed request_changing_date)) ?tx = JStr ''2024-02-15''"
    using T [of ?f env0, THEN conjunct2, THEN conjunct1] t unfolding c by simp
  have l: "lookupTransaction store0 (record_uuid request_changing_date) = Inr ?tx"
    by (simp add: journal_eval rows_eval request_changing_date_def)
  have v: "\<not> truthy (get (hd ?tx) ''posted'')
        \<and> \<not> (added request_changing_date = []
             \<and> length (removed request_changing_date) \<ge> length ?tx)
        \<and> int (length (added request_changing_date))
            - int (length (removed request_changing_date)) + int (length ?tx) \<noteq> 1"
    by (simp add: journal_eval rows_eval request_changing_date_def)
  have 3: "editTransaction (env0\<lparr>lookupFiscalYearByDate := ?f\<rparr>) store0 request_changing_date
           = editTransaction env0 store0 request_changing_date"
    using T [of ?f env0, THEN conjunct2, THEN conjunct2, THEN conjunct1] d l by simp
  note P = T [THEN conjunct2, THEN conjunct2, THEN conjunct2, rule_format, OF conjI [OF l v]]
  have 4: "editTransaction ?envF store0 request_changing_date = (Inl NotFound, store0)"
    using P [of ?envF, THEN conjunct1, rule_format, of NotFound] d by simp
  have 5: "editTransaction ?envL store0 request_changing_date
           = (Inl (BadRequest CLOSED_FISCAL_YEAR), store0)"
    using P [of ?envL, THEN conjunct2, THEN conjunct1, rule_format,
        of "[''locked'' \<mapsto> JNum 1]"] d by simp
  have e: "lookupFiscalYearByDate env0
             (getTransactionDate (Some (changed request_changing_date)) ?tx) = Inr ?entry
           \<and> \<not> truthy (get ?entry ''locked'')"
    unfolding d by (simp add: env0_def)
  have 6: "(case projr (buildTransaction env0 store0 request_changing_date) ! 0 of
        UPDATE_JOURNAL_ROW row u \<Rightarrow> get row ''period_id'' = JNum 32
      | _ \<Rightarrow> False)"
    unfolding P [of env0, THEN conjunct2, THEN conjunct2, rule_format, OF e]
    by (simp add: journal_eval rows_eval request_changing_date_def transformColumns_def
        schedule_row_def env0_def)
  show ?thesis
    using t d 3 4 5 6 by simp
qed

text \<open>
  The claim as first stated fails for an edit that changes no row and adds a row dated
  2024-02-15 to a transaction of 2024-01-01: the specification's date is that of the added
  row, the handler resolves the date of the existing rows, and the added row is stored
  with period 31 although the fiscal service resolves its own date into period 32.
\<close>

theorem transaction_date_counterexample:
  "getTransactionDate (Some (changed request_adding_dated_row))
      (naiveTransactionSearch store0 (JStr ''t1'')) = JDate (Some 1704067200000)
   \<and> effective_date_as_specified (changed request_adding_dated_row)
        (added request_adding_dated_row) (naiveTransactionSearch store0 (JStr ''t1''))
      = JStr ''2024-02-15''
   \<and> get (posting_journal (snd (editTransaction env0 store0 request_adding_dated_row)) ! 2)
        ''period_id'' = JNum 31
   \<and> map_sum id (\<lambda>entry. get entry ''id'') (lookupFiscalYearByDate env0 (JStr ''2024-02-15''))
      = Inr (JNum 32)"
  by (simp add: journal_eval rows_eval request_adding_dated_row_def
      effective_date_as_specified_def last_date_def
      editTransaction_def buildTransaction_def transformColumns_def schedule_row_def
      execute_def env0_def)

subsection \<open>Dated rows\<close>

text \<open>
  C3. In an edit that reaches its database transaction, every added row and every changed
  row that supplies its own transaction date (a truthy \<open>trans_date\<close>) is written with
  that date normalised to a date object, with \<open>fiscal_year_id\<close> set to the
  \<open>fiscal_year_id\<close> and \<open>period_id\<close> set to the \<open>id\<close> of the calendar entry the fiscal service
  resolved for the effective date of the edit: the identifier of the resolved fiscal year
  and the identifier of the resolved period.
\<close>

theorem dated_rows_are_stamped:
  assumes B: "buildTransaction en st rq = Inr statements"
    and L: "lookupTransaction st (record_uuid rq) = Inr tx"
    and F: "lookupFiscalYearByDate en (getTransactionDate (Some (changed rq)) tx) = Inr entry"
  shows "(\<forall>i < length (added rq). truthy (get (added rq ! i) ''trans_date'') \<longrightarrow>
           (\<exists>row. statements ! (length (removed rq) + i) = INSERT_JOURNAL_ROW row
              \<and> get row ''trans_date''
                  = new_Date (parse_date en) (get (added rq ! i) ''trans_date'')
              \<and> is_date (get row ''trans_date'')
              \<and> get row ''fiscal_year_id'' = get entry ''fiscal_year_id''
              \<and> get row ''period_id'' = get entry ''id''))
       \<and> (\<forall>i < length (changed rq). truthy (get (snd (changed rq ! i)) ''trans_date'') \<longrightarrow>
           (\<exists>row. statements ! (length (removed rq) + length (added rq) + i)
                    = UPDATE_JOURNAL_ROW row (bid (JStr (fst (changed rq ! i))))
              \<and> get row ''trans_date''
                  = new_Date (parse_date en) (get (snd (changed rq ! i)) ''trans_date'')
              \<and> is_date (get row ''trans_date'')
              \<and> get row ''fiscal_year_id'' = get entry ''fiscal_year_id''
              \<and> get row ''period_id'' = get entry ''id''))"
proof -
  from B obtain t0 ts fy inserted updated where
    L': "lookupTransaction st (record_uuid rq) = Inr (t0 # ts)"
    and F': "lookupFiscalYearByDate en (getTransactionDate (Some (changed rq)) (t0 # ts)) = Inr fy"
    and A: "transformColumns en (arrival_added en) (added rq) True (t0 # ts) fy = Inr inserted"
    and C: "transformColumns en (arrival_changed en) (map snd (changed rq)) False (t0 # ts) fy
             = Inr updated"
    and S: "statements = map (\<lambda>row. REMOVE_JOURNAL_ROW (bid (get row ''uuid''))) (removed rq)
                    @ map INSERT_JOURNAL_ROW inserted
                    @ map (\<lambda>(uid, row). UPDATE_JOURNAL_ROW row (bid (JStr uid)))
                          (zip (map fst (changed rq)) updated)
                    @ [UPDATE_TRANSACTION_HISTORY
                         [''uuid'' \<mapsto> bid (uuid en),
                          ''record_uuid'' \<mapsto> bid (get t0 ''record_uuid''),
                          ''user_id'' \<mapsto> user_id rq]]"
    using buildTransaction_Inr by blast
  from L L' have tx: "tx = t0 # ts" by simp
  from F F' tx have fy: "fy = entry" by simp
  have la: "length inserted = length (added rq)"
    using A by (rule transformColumns_length)
  have lc: "length updated = length (changed rq)"
    using transformColumns_length [OF C] by simp
  show ?thesis
  proof (intro conjI allI impI)
    fix i assume i: "i < length (added rq)" and d: "truthy (get (added rq ! i) ''trans_date'')"
    have "statements ! (length (removed rq) + i) = INSERT_JOURNAL_ROW (inserted ! i)"
      using i la by (simp add: S nth_append)
    then show "\<exists>row. statements ! (length (removed rq) + i) = INSERT_JOURNAL_ROW row
              \<and> get row ''trans_date''
                  = new_Date (parse_date en) (get (added rq ! i) ''trans_date'')
              \<and> is_date (get row ''trans_date'')
              \<and> get row ''fiscal_year_id'' = get entry ''fiscal_year_id''
              \<and> get row ''period_id'' = get entry ''id''"
      using transformColumns_dated [OF A i d] by (simp add: fy)
  next
    fix i assume i: "i < length (changed rq)"
      and d: "truthy (get (snd (changed rq ! i)) ''trans_date'')"
    have i': "i < length (map snd (changed rq))" using i by simp
    have d': "truthy (get (map snd (changed rq) ! i) ''trans_date'')" using i d by simp
    have "statements ! (length (removed rq) + length (added rq) + i)
            = UPDATE_JOURNAL_ROW (updated ! i) (bid (JStr (fst (changed rq ! i))))"
      using i la lc by (simp add: S nth_append)
    then show "\<exists>row. statements ! (length (removed rq) + length (added rq) + i)
                    = UPDATE_JOURNAL_ROW row (bid (JStr (fst (changed rq ! i))))
              \<and> get row ''trans_date''
                  = new_Date (parse_date en) (get (snd (changed rq ! i)) ''trans_date'')
              \<and> is_date (get row ''trans_date'')
              \<and> get row ''fiscal_year_id'' = get entry ''fiscal_year_id''
              \<and> get row ''period_id'' = get entry ''id''"
      using transformColumns_dated [OF C i' d'] i by (simp add: fy)
  qed
qed

theorem dated_rows_are_stamped_witness:
  "(case projr (buildTransaction env0 store0 request_redating) ! 1 of
      INSERT_JOURNAL_ROW row \<Rightarrow>
        get row ''trans_date'' = JDate (Some 1707955200000)
        \<and> get row ''fiscal_year_id'' = JNum 3 \<and> get row ''period_id'' = JNum 32
    | _ \<Rightarrow> False)
   \<and> (case projr (buildTransaction env0 store0 request_redating) ! 2 of
      UPDATE_JOURNAL_ROW row u \<Rightarrow>
        u = JStr ''a'' \<and> get row ''trans_date'' = JDate (Some 1707955200000)
        \<and> get row ''fiscal_year_id'' = JNum 3 \<and> get row ''period_id'' = JNum 32
    | _ \<Rightarrow> False)"
proof -
  let ?tx = "naiveTransactionSearch store0 (JStr ''t1'')"
  let ?entry = "[''fiscal_year_id'' \<mapsto> JNum 3, ''id'' \<mapsto> JNum 32, ''locked'' \<mapsto> JNum 0]"
  have "\<not> isl (buildTransaction env0 store0 request_redating)"
    by (simp add: journal_eval rows_eval request_redating_def buildTransaction_def
        transformColumns_def schedule_row_def env0_def)
  then have b: "buildTransaction env0 store0 request_redating
                 = Inr (projr (buildTransaction env0 store0 request_redating))"
    by simp
  have l: "lookupTransaction store0 (record_uuid request_redating) = Inr ?tx"
    by (simp add: journal_eval rows_eval request_redating_def)
  have f: "lookupFiscalYearByDate env0 (getTransactionDate (Some (changed request_redating)) ?tx)
             = Inr ?entry"
    by (simp add: journal_eval rows_eval request_redating_def env0_def)
  note T = dated_rows_are_stamped [OF b l f]
  have a: "0 < length (added request_redating)"
    "truthy (get (added request_redating ! 0) ''trans_date'')"
    "get (added request_redating ! 0) ''trans_date'' = JStr ''2024-02-15''"
    "length (removed request_redating) = 1"
    by (simp_all add: request_redating_def)
  have c: "0 < length (changed request_redating)"
    "truthy (get (snd (changed request_redating ! 0)) ''trans_date'')"
    "get (snd (changed request_redating ! 0)) ''trans_date'' = JStr ''2024-02-15''"
    "fst (changed request_redating ! 0) = ''a''"
    "length (added request_redating) = 1"
    by (simp_all add: request_redating_def)
  have p: "parse_date env0 ''2024-02-15'' = Some 1707955200000"
    by (simp add: env0_def)
  from T [THEN conjunct1, rule_format, OF a(1,2)] T [THEN conjunct2, rule_format, OF c(1,2)]
  show ?thesis
    by (auto simp: a c p bid_def numeral_2_eq_2)
qed

subsection \<open>A failed lookup\<close>

text \<open>
  C4. Take a lookup scheduled by the loop over the added rows or by the loop over the
  changed rows of an edit (for the loaded transaction, whatever calendar entry is
  stamped). If its promise is rejected, by the round trip or by its closure, which does
  not depend on the rows it would write to, then the edit ends with an error and the
  store is the store before the edit: no row is deleted, inserted or updated and no
  history record is added.
\<close>

theorem failed_lookup_leaves_store_unchanged:
  assumes L: "lookupTransaction st (record_uuid rq) = Inr (t0 # ts)"
    and S: "schedule_rows en newRecord (get t0 ''project_id'') (get t0 ''trans_date'')
              (get t0 ''currency_id'') fy 0 rows = Inr (rows', requests)"
    and R: "(newRecord, rows) = (True, added rq)
            \<or> (newRecord, rows) = (False, map snd (changed rq))"
    and q: "q \<in> set requests"
    and F: "settle_one en q rows0 = Inl e"
  shows "isl (fst (editTransaction en st rq)) \<and> snd (editTransaction en st rq) = st"
proof (cases "buildTransaction en st rq")
  case (Inl e')
  then show ?thesis by (simp add: editTransaction_rejected)
next
  case (Inr stmts)
  then obtain t0' ts' fy' inserted updated where
    L': "lookupTransaction st (record_uuid rq) = Inr (t0' # ts')"
    and A: "transformColumns en (arrival_added en) (added rq) True (t0' # ts') fy' = Inr inserted"
    and C: "transformColumns en (arrival_changed en) (map snd (changed rq)) False (t0' # ts') fy'
             = Inr updated"
    using buildTransaction_Inr by blast
  from L L' have same: "t0' = t0" "ts' = ts" by simp_all
  from S have reqs: "requests = requests_from en (get t0 ''project_id'') (get t0 ''trans_date'')
       (get t0 ''currency_id'') 0 rows"
    by (rule schedule_rows_requests)
  from F have bad: "lookup_outcome en q = Inl e" by (simp add: settle_one_fails)
  from R show ?thesis
  proof
    assume "(newRecord, rows) = (True, added rq)"
    with A q reqs bad same show ?thesis
      by (auto simp: transformColumns_Inr)
  next
    assume "(newRecord, rows) = (False, map snd (changed rq))"
    with C q reqs bad same show ?thesis
      by (auto simp: transformColumns_Inr)
  qed
qed

theorem failed_lookup_leaves_store_unchanged_witness:
  "settle_one env0 (ACCOUNT_NUMBER_QUERY, [JNum 9999], Assign_account_id, 0) []
     = Inl (BadRequest EDIT_INVALID_ACCOUNT)
   \<and> isl (fst (editTransaction env0 store0 request_with_unknown_account))
   \<and> snd (editTransaction env0 store0 request_with_unknown_account) = store0"
proof -
  let ?tx = "naiveTransactionSearch store0 (JStr ''t1'')"
  let ?q = "(ACCOUNT_NUMBER_QUERY, [JNum 9999], Assign_account_id, 0 :: nat)"
  have tx: "?tx = [rowA(''posted'' \<mapsto> JNum 0), rowB(''posted'' \<mapsto> JNum 0)]"
    by (simp add: journal_eval rows_eval)
  have l: "lookupTransaction store0 (record_uuid request_with_unknown_account)
             = Inr (rowA(''posted'' \<mapsto> JNum 0) # [rowB(''posted'' \<mapsto> JNum 0)])"
    by (simp add: lookupTransaction_def tx request_with_unknown_account_def)
  have s: "schedule_rows env0 False (get (rowA(''posted'' \<mapsto> JNum 0)) ''project_id'')
              (get (rowA(''posted'' \<mapsto> JNum 0)) ''trans_date'')
              (get (rowA(''posted'' \<mapsto> JNum 0)) ''currency_id'') Map.empty 0
              (map snd (changed request_with_unknown_account))
           = Inr ([Map.empty], [?q])"
    by (simp add: schedule_row_def request_with_unknown_account_def rowA_def Let_def)
  have r: "(False, map snd (changed request_with_unknown_account))
             = (True, added request_with_unknown_account)
           \<or> (False, map snd (changed request_with_unknown_account))
             = (False, map snd (changed request_with_unknown_account))"
    by simp
  have q: "?q \<in> set [?q]" by simp
  have f: "settle_one env0 ?q [] = Inl (BadRequest EDIT_INVALID_ACCOUNT)"
    by (simp add: env0_def)
  show ?thesis
    using f failed_lookup_leaves_store_unchanged [OF l s r q f] by simp
qed

subsection \<open>Posted transactions\<close>

text \<open>
  C5. When every row loaded for the transaction reports \<open>posted\<close>, every edit request
  against it fails with \<open>BadRequest\<close> \<open>TRANSACTION_ALREADY_POSTED\<close>, whatever its body holds,
  and the store is left as it was.
\<close>

theorem posted_transaction_is_immutable:
  assumes "lookupTransaction st (record_uuid rq) = Inr tx"
    and "\<forall>r \<in> set tx. truthy (get r ''posted'')"
  shows "editTransaction en st rq = (Inl (BadRequest TRANSACTION_ALREADY_POSTED), st)"
proof -
  from assms(1) obtain t0 ts where tx: "tx = t0 # ts"
    using lookupTransaction_nonempty by (cases tx) auto
  with assms(2) have "truthy (get t0 ''posted'')" by simp
  with assms(1) tx show ?thesis
    by (intro editTransaction_rejected buildTransaction_posted) simp_all
qed

theorem posted_transaction_is_immutable_witness:
  "editTransaction env0 store0 request_on_posted
     = (Inl (BadRequest TRANSACTION_ALREADY_POSTED), store0)"
proof -
  have l: "lookupTransaction store0 (record_uuid request_on_posted)
             = Inr (naiveTransactionSearch store0 (JStr ''t2''))"
    by (simp add: journal_eval rows_eval request_on_posted_def)
  have p: "\<forall>r \<in> set (naiveTransactionSearch store0 (JStr ''t2'')). truthy (get r ''posted'')"
    by (simp add: journal_eval rows_eval)
  show ?thesis
    using posted_transaction_is_immutable [OF l p] .
qed

subsection \<open>Rate conversions\<close>

text \<open>
  C6, as amended. Take an edit that passes the checks made before the rows are
  transformed: the transaction is loaded and not posted, enough rows are left, the date
  resolves to a calendar entry that is not locked, and every row is scheduled (each added
  row has its account number). For a row of the edit, added or changed, whose
  \<open>debit_equiv\<close> (respectively \<open>credit_equiv\<close>) is truthy, a rate conversion is performed
  for that amount. When the store answers it, every other lookup of the edit succeeds
  and the store does not itself reject the commit with that code, the edit fails with
  \<open>BadRequest\<close> \<open>MISSING_EXCHANGE_RATE\<close> if and only if the converted amount, the amount
  of the first row of the answer, is falsy (a genuine zero included), and the store is
  then left as it was; and when the edit reaches its commit, the row sent to the store
  in the statement of that row has the converted amount as its \<open>debit\<close> (respectively
  \<open>credit\<close>).
\<close>

theorem exchange_rate_conversion:
  assumes L: "lookupTransaction st (record_uuid rq) = Inr tx"
    and P: "\<not> truthy (get (hd tx) ''posted'')"
    and N: "\<not> (added rq = [] \<and> length (removed rq) \<ge> length tx)"
      "int (length (added rq)) - int (length (removed rq)) + int (length tx) \<noteq> 1"
    and F: "lookupFiscalYearByDate en (getTransactionDate (Some (changed rq)) tx) = Inr fy"
      "\<not> truthy (get fy ''locked'')"
    and SA: "schedule_rows en True (get (hd tx) ''project_id'') (get (hd tx) ''trans_date'')
               (get (hd tx) ''currency_id'') fy 0 (added rq) = Inr (rowsA, requestsA)"
    and SC: "schedule_rows en False (get (hd tx) ''project_id'') (get (hd tx) ''trans_date'')
               (get (hd tx) ''currency_id'') fy 0 (map snd (changed rq))
             = Inr (rowsC, requestsC)"
    and R: "(rows, requests, position) = (added rq, requestsA, length (removed rq) + i)
            \<or> (rows, requests, position)
               = (map snd (changed rq), requestsC,
                  length (removed rq) + length (added rq) + i)"
    and i: "i < length rows"
    and k: "(source, target, asg) = (''debit_equiv'', ''debit'', Assign_debit)
            \<or> (source, target, asg) = (''credit_equiv'', ''credit'', Assign_credit)"
    and s: "truthy (get (rows ! i) source)"
    and A: "db_exec en EXCHANGE_RATE_QUERY (rate_params en tx (rows ! i) source) = Inr results"
    and O: "\<forall>q \<in> set requestsA \<union> set requestsC.
              q \<noteq> (EXCHANGE_RATE_QUERY, rate_params en tx (rows ! i) source, asg, i)
              \<longrightarrow> \<not> isl (lookup_outcome en q)"
    and SF: "\<forall>statements. store_rejects en st statements
               \<noteq> Some (BadRequest MISSING_EXCHANGE_RATE)"
  shows "(EXCHANGE_RATE_QUERY, rate_params en tx (rows ! i) source, asg, i) \<in> set requests
       \<and> (fst (editTransaction en st rq) = Inl (BadRequest MISSING_EXCHANGE_RATE)
            \<longleftrightarrow> results \<noteq> [] \<and> \<not> truthy (get (hd results) ''amount''))
       \<and> (fst (editTransaction en st rq) = Inl (BadRequest MISSING_EXCHANGE_RATE)
            \<longrightarrow> snd (editTransaction en st rq) = st)
       \<and> (\<forall>statements. buildTransaction en st rq = Inr statements \<longrightarrow>
             (\<exists>row. statement_row (statements ! position) = Some row
                  \<and> results \<noteq> []
                  \<and> get row target = get (hd results) ''amount''
                  \<and> truthy (get row target)))"
proof -
  define q where "q = (EXCHANGE_RATE_QUERY, rate_params en tx (rows ! i) source, asg, i)"
  from L obtain t0 ts where tx: "tx = t0 # ts"
    using lookupTransaction_nonempty by (cases tx) auto
  from k have a: "asg = Assign_debit \<or> asg = Assign_credit" by auto
  from k have f: "field_of asg = target" by (auto simp: field_of_def)
  have p: "lookupTransaction st (record_uuid rq) = Inr (t0 # ts)"
    "\<not> truthy (get t0 ''posted'')"
    "\<not> (added rq = [] \<and> length (removed rq) \<ge> Suc (length ts))"
    "int (length (added rq)) - int (length (removed rq)) + int (Suc (length ts)) \<noteq> 1"
    using L P N by (simp_all add: tx)
  have F': "lookupFiscalYearByDate en (getTransactionDate (Some (changed rq)) (t0 # ts)) = Inr fy"
    using F(1) by (simp add: tx)
  note SA' = SA [unfolded tx list.sel]
  note SC' = SC [unfolded tx list.sel]
  have ok: "lookup_outcome en q = Inr v \<longleftrightarrow>
              results \<noteq> [] \<and> v = get (hd results) ''amount'' \<and> truthy v" for v
    unfolding q_def by (rule rate_request_outcome(1) [OF a A])
  have missing: "lookup_outcome en q = Inl (BadRequest MISSING_EXCHANGE_RATE) \<longleftrightarrow>
                   results \<noteq> [] \<and> \<not> truthy (get (hd results) ''amount'')"
    unfolding q_def by (rule rate_request_outcome(2) [OF a A])
  have e: "(EXCHANGE_RATE_QUERY, rate_params en (t0 # ts) (rows ! i) source, asg, i)
             \<in> set (expected_requests en (get t0 ''project_id'') (get t0 ''trans_date'')
                 (get t0 ''currency_id'') i (rows ! i))"
    using k s expected_requests_asked(4,5) [of "rows ! i" en t0 ts i] by auto
  then have e': "q \<in> set (expected_requests en (get t0 ''project_id'') (get t0 ''trans_date'')
                 (get t0 ''currency_id'') i (rows ! i))"
    by (simp add: q_def tx)
  have reqs: "requests = requests_from en (get t0 ''project_id'') (get t0 ''trans_date'')
                 (get t0 ''currency_id'') 0 rows"
    using R schedule_rows_requests [OF SA'] schedule_rows_requests [OF SC'] by auto
  have mem: "q \<in> set requests"
    unfolding reqs set_requests_from using e' i by auto
  have mem': "q \<in> set requestsA \<union> set requestsC"
    using mem R by auto
  have O': "\<forall>q' \<in> set requestsA \<union> set requestsC. q' \<noteq> q \<longrightarrow> \<not> isl (lookup_outcome en q')"
    unfolding q_def by (rule O)
  note single = buildTransaction_single_failure [OF p F' F(2) SA' SC' mem' O']
  note edit = editTransaction_BadRequest [OF SF, of rq]
  have iff: "fst (editTransaction en st rq) = Inl (BadRequest MISSING_EXCHANGE_RATE)
            \<longleftrightarrow> results \<noteq> [] \<and> \<not> truthy (get (hd results) ''amount'')"
    unfolding edit single missing ..
  have unchanged: "snd (editTransaction en st rq) = st"
    if "fst (editTransaction en st rq) = Inl (BadRequest MISSING_EXCHANGE_RATE)"
    using that [unfolded edit] by (simp add: editTransaction_rejected)
  have written: "\<exists>row. statement_row (statements ! position) = Some row
                  \<and> results \<noteq> []
                  \<and> get row target = get (hd results) ''amount''
                  \<and> truthy (get row target)"
    if b: "buildTransaction en st rq = Inr statements" for statements
  proof -
    from buildTransaction_positions [OF b p(1) F'] obtain inserted updated where
      TA: "transformColumns en (arrival_added en) (added rq) True (t0 # ts) fy = Inr inserted"
      and TC: "transformColumns en (arrival_changed en) (map snd (changed rq)) False (t0 # ts) fy
             = Inr updated"
      and IA: "\<forall>j < length (added rq).
              statements ! (length (removed rq) + j) = INSERT_JOURNAL_ROW (inserted ! j)"
      and IC: "\<forall>j < length (changed rq).
              statements ! (length (removed rq) + length (added rq) + j)
                = UPDATE_JOURNAL_ROW (updated ! j) (bid (JStr (fst (changed rq ! j))))"
      by blast
    have "\<exists>row. statement_row (statements ! position) = Some row
               \<and> lookup_outcome en q = Inr (get row target)"
      using R
    proof
      assume r: "(rows, requests, position) = (added rq, requestsA, length (removed rq) + i)"
      then have rows: "rows = added rq" and pos: "position = length (removed rq) + i"
        by simp_all
      from i rows have i': "i < length (added rq)" by simp
      from IA i' have "statements ! position = INSERT_JOURNAL_ROW (inserted ! i)"
        by (simp add: pos)
      then have "statement_row (statements ! position) = Some (inserted ! i)"
        by (simp add: statement_row_def)
      moreover have "lookup_outcome en q = Inr (get (inserted ! i) target)"
        using transformColumns_asked [OF TA i' e [unfolded rows]]
        by (simp add: q_def tx rows f)
      ultimately show ?thesis by blast
    next
      assume r: "(rows, requests, position)
               = (map snd (changed rq), requestsC,
                  length (removed rq) + length (added rq) + i)"
      then have rows: "rows = map snd (changed rq)"
        and pos: "position = length (removed rq) + length (added rq) + i" by simp_all
      from i rows have i': "i < length (changed rq)" by simp
      then have i'': "i < length (map snd (changed rq))" by simp
      from IC i' have "statements ! position
              = UPDATE_JOURNAL_ROW (updated ! i) (bid (JStr (fst (changed rq ! i))))"
        by (simp add: pos)
      then have "statement_row (statements ! position) = Some (updated ! i)"
        by (simp add: statement_row_def)
      moreover have "lookup_outcome en q = Inr (get (updated ! i) target)"
        using transformColumns_asked [OF TC i'' e [unfolded rows]]
        by (simp add: q_def tx rows f)
      ultimately show ?thesis by blast
    qed
    then obtain row where "statement_row (statements ! position) = Some row"
      and "lookup_outcome en q = Inr (get row target)" by blast
    with ok [of "get row target"] show ?thesis by blast
  qed
  show ?thesis
  proof (intro conjI allI impI)
    show "(EXCHANGE_RATE_QUERY, rate_params en tx (rows ! i) source, asg, i) \<in> set requests"
      using mem by (simp add: q_def)
    show "fst (editTransaction en st rq) = Inl (BadRequest MISSING_EXCHANGE_RATE)
            \<longleftrightarrow> results \<noteq> [] \<and> \<not> truthy (get (hd results) ''amount'')"
      by (rule iff)
    show "snd (editTransaction en st rq) = st"
      if "fst (editTransaction en st rq) = Inl (BadRequest MISSING_EXCHANGE_RATE)"
      using that by (rule unchanged)
    show "\<exists>row. statement_row (statements ! position) = Some row
                  \<and> results \<noteq> []
                  \<and> get row target = get (hd results) ''amount''
                  \<and> truthy (get row target)"
      if "buildTransaction en st rq = Inr statements" for statements
      using that by (rule written)
  qed
qed

theorem exchange_rate_conversion_witness:
  "fst (editTransaction env0 store0 request_without_rate)
     = Inl (BadRequest MISSING_EXCHANGE_RATE)
   \<and> snd (editTransaction env0 store0 request_without_rate) = store0
   \<and> \<not> isl (buildTransaction env0 store0 request_converting)
   \<and> statement_row (projr (buildTransaction env0 store0 request_converting) ! 0) \<noteq> None
   \<and> get (the (statement_row (projr (buildTransaction env0 store0 request_converting) ! 0)))
       ''debit'' = JNum 10"
proof -
  let ?tx = "naiveTransactionSearch store0 (JStr ''t1'')"
  let ?fy = "[''fiscal_year_id'' \<mapsto> JNum 3, ''id'' \<mapsto> JNum 31, ''locked'' \<mapsto> JNum 0]"
  let ?reqs = "\<lambda>rows. requests_from env0 (get (hd ?tx) ''project_id'')
                 (get (hd ?tx) ''trans_date'') (get (hd ?tx) ''currency_id'') 0 rows"
  let ?edited = "map (edited_row env0 ?fy)"
  have tx: "?tx = [rowA(''posted'' \<mapsto> JNum 0), rowB(''posted'' \<mapsto> JNum 0)]"
    by (simp add: journal_eval rows_eval)
  have h: "get (hd ?tx) ''project_id'' = JNum 1"
    "get (hd ?tx) ''trans_date'' = JDate (Some 1704067200000)"
    "get (hd ?tx) ''currency_id'' = JNum 2"
    "\<not> truthy (get (hd ?tx) ''posted'')"
    "length ?tx = 2"
    by (simp_all add: tx rowA_def)
  have locked: "\<not> truthy (get ?fy ''locked'')"
    by simp
  have SF: "\<forall>statements. store_rejects env0 store0 statements
               \<noteq> Some (BadRequest MISSING_EXCHANGE_RATE)"
    by (simp add: env0_def)
  have k: "(''credit_equiv'', ''credit'', Assign_credit)
             = (''debit_equiv'', ''debit'', Assign_debit)
           \<or> (''credit_equiv'', ''credit'', Assign_credit)
             = (''credit_equiv'', ''credit'', Assign_credit)"
    "(''debit_equiv'', ''debit'', Assign_debit) = (''debit_equiv'', ''debit'', Assign_debit)
     \<or> (''debit_equiv'', ''debit'', Assign_debit) = (''credit_equiv'', ''credit'', Assign_credit)"
    by simp_all

  let ?rq = request_without_rate
  have L: "lookupTransaction store0 (record_uuid ?rq) = Inr ?tx"
    using h(5) by (auto simp add: lookupTransaction_def Let_def request_without_rate_def)
  have N: "\<not> (added ?rq = [] \<and> length (removed ?rq) \<ge> length ?tx)"
    "int (length (added ?rq)) - int (length (removed ?rq)) + int (length ?tx) \<noteq> 1"
    unfolding h by (simp_all add: request_without_rate_def)
  have F: "lookupFiscalYearByDate env0 (getTransactionDate (Some (changed ?rq)) ?tx) = Inr ?fy"
    by (simp add: tx getTransactionDate_def Let_def rowA_def rowB_def request_without_rate_def
        env0_def)
  have SA: "schedule_rows env0 True (get (hd ?tx) ''project_id'') (get (hd ?tx) ''trans_date'')
               (get (hd ?tx) ''currency_id'') ?fy 0 (added ?rq)
            = Inr (?edited (added ?rq), ?reqs (added ?rq))"
    by (simp add: schedule_rows_eq request_without_rate_def)
  have SC: "schedule_rows env0 False (get (hd ?tx) ''project_id'') (get (hd ?tx) ''trans_date'')
               (get (hd ?tx) ''currency_id'') ?fy 0 (map snd (changed ?rq))
            = Inr (?edited (map snd (changed ?rq)), ?reqs (map snd (changed ?rq)))"
    by (simp add: schedule_rows_eq)
  have R: "(added ?rq, ?reqs (added ?rq), length (removed ?rq) + 0)
             = (added ?rq, ?reqs (added ?rq), length (removed ?rq) + 0)
           \<or> (added ?rq, ?reqs (added ?rq), length (removed ?rq) + 0)
             = (map snd (changed ?rq), ?reqs (map snd (changed ?rq)),
                length (removed ?rq) + length (added ?rq) + 0)"
    by simp
  have i: "0 < length (added ?rq)"
    by (simp add: request_without_rate_def)
  have s: "truthy (get (added ?rq ! 0) ''credit_equiv'')"
    by (simp add: request_without_rate_def)
  have params: "rate_params env0 ?tx (added ?rq ! 0) ''credit_equiv''
                = [JStr ''7'', JNum 2, JNum 2, JDate (Some 1704067200000), JNum 1]"
    by (simp add: rate_params_def h request_without_rate_def)
  have A: "db_exec env0 EXCHANGE_RATE_QUERY (rate_params env0 ?tx (added ?rq ! 0) ''credit_equiv'')
           = Inr [[''amount'' \<mapsto> JNull]]"
    unfolding params by (simp add: env0_def)
  have O: "\<forall>q \<in> set (?reqs (added ?rq)) \<union> set (?reqs (map snd (changed ?rq))).
              q \<noteq> (EXCHANGE_RATE_QUERY, rate_params env0 ?tx (added ?rq ! 0) ''credit_equiv'',
                    Assign_credit, 0)
              \<longrightarrow> \<not> isl (lookup_outcome env0 q)"
    unfolding params h
    by (simp add: request_without_rate_def expected_requests_def Let_def lookup_outcome_def
        env0_def)
  note T = exchange_rate_conversion [OF L h(4) N F locked SA SC R i k(1) s A O SF]
  have 1: "fst (editTransaction env0 store0 ?rq) = Inl (BadRequest MISSING_EXCHANGE_RATE)"
    using T [THEN conjunct2, THEN conjunct1] by simp
  have 2: "snd (editTransaction env0 store0 ?rq) = store0"
    using T [THEN conjunct2, THEN conjunct2, THEN conjunct1] 1 by simp

  let ?rc = request_converting
  have L': "lookupTransaction store0 (record_uuid ?rc) = Inr ?tx"
    using h(5) by (auto simp add: lookupTransaction_def Let_def request_converting_def)
  have N': "\<not> (added ?rc = [] \<and> length (removed ?rc) \<ge> length ?tx)"
    "int (length (added ?rc)) - int (length (removed ?rc)) + int (length ?tx) \<noteq> 1"
    unfolding h by (simp_all add: request_converting_def)
  have F': "lookupFiscalYearByDate env0 (getTransactionDate (Some (changed ?rc)) ?tx) = Inr ?fy"
    by (simp add: tx getTransactionDate_def Let_def rowA_def rowB_def request_converting_def
        env0_def)
  have SA': "schedule_rows env0 True (get (hd ?tx) ''project_id'') (get (hd ?tx) ''trans_date'')
               (get (hd ?tx) ''currency_id'') ?fy 0 (added ?rc)
            = Inr (?edited (added ?rc), ?reqs (added ?rc))"
    by (simp add: schedule_rows_eq request_converting_def)
  have SC': "schedule_rows env0 False (get (hd ?tx) ''project_id'') (get (hd ?tx) ''trans_date'')
               (get (hd ?tx) ''currency_id'') ?fy 0 (map snd (changed ?rc))
            = Inr (?edited (map snd (changed ?rc)), ?reqs (map snd (changed ?rc)))"
    by (simp add: schedule_rows_eq)
  have R': "(map snd (changed ?rc), ?reqs (map snd (changed ?rc)),
               length (removed ?rc) + length (added ?rc) + 0)
             = (added ?rc, ?reqs (added ?rc), length (removed ?rc) + 0)
           \<or> (map snd (changed ?rc), ?reqs (map snd (changed ?rc)),
               length (removed ?rc) + length (added ?rc) + 0)
             = (map snd (changed ?rc), ?reqs (map snd (changed ?rc)),
                length (removed ?rc) + length (added ?rc) + 0)"
    by simp
  have i': "0 < length (map snd (changed ?rc))"
    by (simp add: request_converting_def)
  have s': "truthy (get (map snd (changed ?rc) ! 0) ''debit_equiv'')"
    by (simp add: request_converting_def)
  have params': "rate_params env0 ?tx (map snd (changed ?rc) ! 0) ''debit_equiv''
                = [JNum 5, JNum 2, JNum 2, JDate (Some 1704067200000), JNum 1]"
    by (simp add: rate_params_def h request_converting_def)
  have A': "db_exec env0 EXCHANGE_RATE_QUERY
              (rate_params env0 ?tx (map snd (changed ?rc) ! 0) ''debit_equiv'')
           = Inr [[''amount'' \<mapsto> JNum 10]]"
    unfolding params' by (simp add: env0_def)
  have O': "\<forall>q \<in> set (?reqs (added ?rc)) \<union> set (?reqs (map snd (changed ?rc))).
              q \<noteq> (EXCHANGE_RATE_QUERY,
                    rate_params env0 ?tx (map snd (changed ?rc) ! 0) ''debit_equiv'',
                    Assign_debit, 0)
              \<longrightarrow> \<not> isl (lookup_outcome env0 q)"
    unfolding params' h
    by (simp add: request_converting_def expected_requests_def Let_def lookup_outcome_def
        env0_def)
  note T' = exchange_rate_conversion [OF L' h(4) N' F' locked SA' SC' R' i' k(2) s' A' O' SF]
  have p: "length (removed ?rc) + length (added ?rc) + 0 = 0"
    by (simp add: request_converting_def)
  have 3: "\<not> isl (buildTransaction env0 store0 ?rc)"
    by (simp add: journal_eval rows_eval request_converting_def buildTransaction_def
        transformColumns_def schedule_row_def env0_def)
  then have b: "buildTransaction env0 store0 ?rc = Inr (projr (buildTransaction env0 store0 ?rc))"
    by simp
  from T' [THEN conjunct2, THEN conjunct2, THEN conjunct2, rule_format, OF b]
  obtain row where "statement_row (projr (buildTransaction env0 store0 ?rc) ! 0) = Some row"
    and "get row ''debit'' = JNum 10"
    unfolding p by auto
  then have 4: "statement_row (projr (buildTransaction env0 store0 ?rc) ! 0) \<noteq> None"
    and 5: "get (the (statement_row (projr (buildTransaction env0 store0 ?rc) ! 0))) ''debit''
            = JNum 10"
    by simp_all
  from 1 2 3 4 5 show ?thesis by simp
qed

text \<open>
  The claim as first stated fails on two requests. An added row with \<open>debit_equiv\<close> 0
  present beside \<open>credit_equiv\<close> 5: the conversion of 0 would give the falsy amount 0,
  yet no conversion is made for it, the edit succeeds, and the row is stored with its
  credit converted and without a debit. An added row with an unknown account number
  and a \<open>credit_equiv\<close> that has no rate: the converted amount is falsy, yet the lookup of
  the account is rejected first and the edit fails with \<open>EDIT_INVALID_ACCOUNT\<close>.
\<close>

theorem exchange_rate_counterexample:
  "get (added request_with_zero_debit ! 0) ''debit_equiv'' = JNum 0
   \<and> first_answer env0 EXCHANGE_RATE_QUERY
       (rate_params env0 (naiveTransactionSearch store0 (JStr ''t1''))
          (added request_with_zero_debit ! 0) ''debit_equiv'') ''amount''
     = Some (JNum 0)
   \<and> \<not> isl (fst (editTransaction env0 store0 request_with_zero_debit))
   \<and> map (\<lambda>row. (get row ''uuid'', get row ''debit_equiv'', get row ''debit'',
                  get row ''credit''))
         (posting_journal (snd (editTransaction env0 store0 request_with_zero_debit)))
     = [(JStr ''a'', JUndefined, JUndefined, JUndefined),
        (JStr ''b'', JUndefined, JUndefined, JUndefined),
        (JStr ''n'', JNum 0, JUndefined, JNum 10)]
   \<and> get (added request_with_two_failures ! 0) ''credit_equiv'' = JStr ''7''
   \<and> first_answer env0 EXCHANGE_RATE_QUERY
       (rate_params env0 (naiveTransactionSearch store0 (JStr ''t1''))
          (added request_with_two_failures ! 0) ''credit_equiv'') ''amount''
     = Some JNull
   \<and> editTransaction env0 store0 request_with_two_failures
     = (Inl (BadRequest EDIT_INVALID_ACCOUNT), store0)"
  by (simp add: journal_eval rows_eval request_with_zero_debit_def
      request_with_two_failures_def first_answer_def rate_params_def
      editTransaction_def buildTransaction_def transformColumns_def schedule_row_def
      execute_def env0_def)

subsection \<open>Lookups and their rows\<close>

text \<open>
  C9. When the row transform succeeds for one order of completion of its lookups, it
  succeeds with the same rows for every order; the result has a row for each row of the
  batch, and in each the account identifier, the entity identifier, the reference
  identifier, the debit and the credit are the answers to the lookups of that very row
  where it asked for them, and are as they came where it did not.
\<close>

theorem lookup_results_reach_their_rows:
  assumes "transformColumns en sched rows newRecord tx fy = Inr out"
  shows "transformColumns en sched' rows newRecord tx fy = Inr out
       \<and> length out = length rows
       \<and> (\<forall>i < length rows. answered en tx (rows ! i) (out ! i))"
proof -
  from assms obtain t0 ts where tx: "tx = t0 # ts"
    by (cases tx) (auto simp: transformColumns_def)
  note T = assms [unfolded tx]
  have "transformColumns en sched' rows newRecord (t0 # ts) fy = Inr out"
    using T by (simp add: transformColumns_Inr)
  moreover have "length out = length rows"
    using assms by (rule transformColumns_length)
  moreover have "\<forall>i < length rows. answered en (t0 # ts) (rows ! i) (out ! i)"
    using transformColumns_answered [OF T] by blast
  ultimately show ?thesis by (simp add: tx)
qed

theorem lookup_results_reach_their_rows_witness:
  "\<not> isl (transformColumns env0 (\<lambda>n. 0) rows_with_amounts True [rowA] Map.empty)
   \<and> transformColumns env0 (\<lambda>n. n) rows_with_amounts True [rowA] Map.empty
     = transformColumns env0 (\<lambda>n. 0) rows_with_amounts True [rowA] Map.empty
   \<and> map (\<lambda>row. (get row ''account_id'', get row ''debit'', get row ''credit''))
         (projr (transformColumns env0 (\<lambda>n. n) rows_with_amounts True [rowA] Map.empty))
     = [(JNum 11, JNum 10, JUndefined), (JNum 22, JUndefined, JNum 6)]
   \<and> arrival (\<lambda>n. 0) ''abcd'' = ''abcd'' \<and> arrival (\<lambda>n. n) ''abcd'' = ''dcba''"
proof -
  let ?T = "\<lambda>sched. transformColumns env0 sched rows_with_amounts True [rowA] Map.empty"
  have ok: "\<not> isl (?T (\<lambda>n. 0))"
    by (simp add: transform_eval rows_with_amounts_def)
  then have t: "?T (\<lambda>n. 0) = Inr (projr (?T (\<lambda>n. 0)))"
    by simp
  note R = lookup_results_reach_their_rows [OF t, of "\<lambda>n. n"]
  from R have same: "?T (\<lambda>n. n) = ?T (\<lambda>n. 0)"
    using t by simp
  from R have len: "length (projr (?T (\<lambda>n. 0))) = 2"
    by (simp add: rows_with_amounts_def)
  note A = R [THEN conjunct2, THEN conjunct2, rule_format]
  have "answered env0 [rowA] (rows_with_amounts ! 0) (projr (?T (\<lambda>n. 0)) ! 0)"
    by (rule A) (simp add: rows_with_amounts_def)
  moreover have "answered env0 [rowA] (rows_with_amounts ! 1) (projr (?T (\<lambda>n. 0)) ! 1)"
    by (rule A) (simp add: rows_with_amounts_def)
  ultimately have vals:
    "get (projr (?T (\<lambda>n. 0)) ! 0) ''account_id'' = JNum 11"
    "get (projr (?T (\<lambda>n. 0)) ! 0) ''debit'' = JNum 10"
    "get (projr (?T (\<lambda>n. 0)) ! 0) ''credit'' = JUndefined"
    "get (projr (?T (\<lambda>n. 0)) ! Suc 0) ''account_id'' = JNum 22"
    "get (projr (?T (\<lambda>n. 0)) ! Suc 0) ''debit'' = JUndefined"
    "get (projr (?T (\<lambda>n. 0)) ! Suc 0) ''credit'' = JNum 6"
    by (simp_all add: answered_def rows_with_amounts_def first_answer_def rate_params_def
        env0_def rowA_def get_def)
  have m: "map f xs = [f (xs ! 0), f (xs ! 1)]" if "length xs = 2" for f :: "row \<Rightarrow> 'b" and xs
    using that by (cases xs; cases "tl xs") auto
  have arr: "arrival (\<lambda>n. 0) ''abcd'' = ''abcd'' \<and> arrival (\<lambda>n. n) ''abcd'' = ''dcba''"
    by (simp add: Let_def)
  show ?thesis
    using ok same arr by (simp add: m [OF len] vals)
qed

end
